theory Spec2Isabelle
  imports
    Main
    "HOL-Library.Char_ord"
    "HOL-Library.List_Lexorder"
    "HOL-Library.Multiset"
begin

section \<open>Legion: the pod-mutating admission webhook\<close>

text \<open>
  A shallow embedding of \<^verbatim>\<open>internal/kubernetes/webhook.go\<close>: the HTTP handler
  \<^verbatim>\<open>AdmissionReviewWebhook\<close>, the review pipeline \<^verbatim>\<open>PodMutator.Review\<close>, the ignore
  functions and \<^verbatim>\<open>PodMutation.Patch\<close>. The packages the file imports (mergo, jsonpatch,
  the Kubernetes serializer, encoding/json) are not part of the repository; the functions
  taken from them are collected in the record \<open>lib\<close>, and the definitions of the
  repository's own code that call them take that record as their first argument.
\<close>

subsection \<open>Errors (github.com/pkg/errors)\<close>

text \<open>
  \<^verbatim>\<open>errors.New(msg)\<close> and \<^verbatim>\<open>errors.Wrap(err, msg)\<close>; \<^verbatim>\<open>err.Error()\<close> of a wrapped error is
  the message, a colon and a space, and the text of the cause (the repository's tests expect
  \<^verbatim>\<open>"cannot patch pod: boom"\<close>).
\<close>

type_synonym bytes = string

datatype error = New string | Wrap error string

fun Error :: "error \<Rightarrow> string" where
  "Error (New msg) = msg"
| "Error (Wrap err msg) = msg @ '': '' @ Error err"

subsection \<open>Objects\<close>

text \<open>
  Modelled from the spec: the declarations of \<^verbatim>\<open>core.Pod\<close>, \<^verbatim>\<open>meta.ObjectMeta\<close> and
  \<^verbatim>\<open>core.PodSpec\<close> (k8s.io/api) are missing. The code reads two fields of a pod
  (\<^verbatim>\<open>p.Spec.HostNetwork\<close>, \<^verbatim>\<open>p.GetAnnotations()\<close>) and hands \<^verbatim>\<open>ObjectMeta\<close> and
  \<^verbatim>\<open>Spec\<close> to the merge and to the serializer as a whole. The specification speaks of
  the structured form of an object, with scalar, map and sequence fields and nested objects;
  an object is kept in that form: a list of named fields whose values are scalars,
  sequences or nested objects (a map is an object). A field that is not set is absent from
  the list; the value of a field \<open>k\<close> of \<open>fs\<close> is \<open>map_of fs k\<close>.
\<close>

datatype scalar = Str string | Num int | Bool bool

datatype val = Scalar scalar | Seq "val list" | Obj "(string \<times> val) list"

type_synonym obj = "(string \<times> val) list"

record Pod =
  ObjectMeta :: obj
  Spec :: obj

text \<open>\<^verbatim>\<open>p.Spec.HostNetwork\<close>: the boolean field \<^verbatim>\<open>hostNetwork\<close>, false when unset.\<close>

definition HostNetwork :: "obj \<Rightarrow> bool" where
  "HostNetwork spec = (map_of spec ''hostNetwork'' = Some (Scalar (Bool True)))"

text \<open>
  \<^verbatim>\<open>p.GetAnnotations()\<close> returns the \<^verbatim>\<open>map[string]string\<close> under \<^verbatim>\<open>annotations\<close>; it is
  the nil map when the field is unset.
\<close>

fun string_entries :: "obj \<Rightarrow> (string \<rightharpoonup> string)" where
  "string_entries [] = Map.empty"
| "string_entries ((k, Scalar (Str s)) # kvs) = (\<lambda>k'. if k' = k then Some s else string_entries kvs k')"
| "string_entries (_ # kvs) = string_entries kvs"

definition GetAnnotations :: "Pod \<Rightarrow> (string \<rightharpoonup> string)" where
  "GetAnnotations p =
     (case map_of (Pod.ObjectMeta p) ''annotations'' of
        Some (Obj kvs) \<Rightarrow> string_entries kvs
      | _ \<Rightarrow> Map.empty)"

text \<open>
  Reading a Go \<^verbatim>\<open>map[string]string\<close> at a key, \<^verbatim>\<open>m[k]\<close>: the zero value \<^verbatim>\<open>""\<close> when the
  key is missing (also on the nil map).
\<close>

definition index :: "(string \<rightharpoonup> string) \<Rightarrow> string \<Rightarrow> string" where
  "index m k = (case m k of None \<Rightarrow> '''' | Some v \<Rightarrow> v)"

subsection \<open>Admission requests and responses (k8s.io/api/admission/v1beta1)\<close>

record GroupVersionKind =
  Group :: string
  Version :: string
  Kind :: string

record GroupVersionResource =
  Group :: string
  Version :: string
  Resource :: string

record RawExtension =
  Raw :: bytes

record AdmissionRequest =
  UID :: string
  Kind :: GroupVersionKind
  Resource :: GroupVersionResource
  Name :: string
  Namespace :: string
  Object :: RawExtension

datatype StatusReason = StatusReasonInvalid | StatusReasonInternalError

definition StatusFailure :: string where
  "StatusFailure = ''Failure''"

record Status =
  Status :: string
  Reason :: StatusReason
  Message :: string

datatype PatchType = PatchTypeJSONPatch

text \<open>
  The pointers \<^verbatim>\<open>Result\<close> and \<^verbatim>\<open>PatchType\<close> are options; the byte slice \<^verbatim>\<open>Patch\<close> is a
  list of bytes, the nil slice being the empty list.
\<close>

record AdmissionResponse =
  UID :: string
  Allowed :: bool
  Result :: "Status option"
  Patch :: bytes
  PatchType :: "PatchType option"

record AdmissionReview =
  Request :: "AdmissionRequest option"
  Response :: "AdmissionResponse option"

definition jsonPatch :: PatchType where
  "jsonPatch = PatchTypeJSONPatch"

definition resourcePod :: GroupVersionResource where
  "resourcePod = \<lparr>GroupVersionResource.Group = '''', Version = ''v1'', Resource = ''pods''\<rparr>"

definition tagResultMutated :: string where "tagResultMutated = ''mutated''"
definition tagResultIgnored :: string where "tagResultIgnored = ''ignored''"
definition tagResultError :: string where "tagResultError = ''error''"

subsection \<open>What a review does besides answering\<close>

text \<open>
  \<^verbatim>\<open>Review\<close> writes to the logger, records one measurement and calls the ignore functions
  and the patcher. The model returns these effects, in order, beside the response:
  \<open>Info\<close> and \<open>Debug\<close> for \<^verbatim>\<open>log.Info\<close> and \<^verbatim>\<open>log.Debug\<close> with their fields,
  \<open>Record\<close> for \<^verbatim>\<open>stats.Record(tags, MeasurePodsReviewed.M(1))\<close> with the tags,
  \<open>CallIgnore i\<close> for the call of the \<open>i\<close>-th ignore function and \<open>CallPatch\<close> for the call
  of \<^verbatim>\<open>m.p.Patch\<close>. A field \<open>ZResource k r\<close> stands for \<^verbatim>\<open>zap.String(k, r.String())\<close>, and
  \<open>ZKind\<close> likewise.
\<close>

datatype zfield =
    ZString string string
  | ZKind string GroupVersionKind
  | ZResource string GroupVersionResource
  | ZError error

record tags =
  TagKind :: GroupVersionKind
  TagNamespace :: string
  TagName :: string
  TagResult :: "string option"

datatype event =
    Info string "zfield list"
  | Debug string "zfield list"
  | Record tags
  | CallIgnore nat
  | CallPatch Pod

subsection \<open>The imported functions\<close>

text \<open>
  \<open>'d\<close> is the encoded form of a pod, which \<^verbatim>\<open>Patch\<close> only passes from
  \<^verbatim>\<open>serializer.Encode\<close> to \<^verbatim>\<open>jsonpatch.CreatePatch\<close>.
\<close>

datatype mergo_option = WithOverride | WithAppendSlice

record JsonPatchOperation =
  Operation :: string
  Path :: string
  Value :: "val option"

record 'd lib =
  mergo_Merge :: "obj \<Rightarrow> obj \<Rightarrow> mergo_option list \<Rightarrow> error + obj"
  serializer_Encode :: "Pod \<Rightarrow> error + 'd"
  serializer_Decode :: "bytes \<Rightarrow> error + Pod"
  jsonpatch_CreatePatch :: "'d \<Rightarrow> 'd \<Rightarrow> error + JsonPatchOperation list"
  json_Marshal :: "JsonPatchOperation list \<Rightarrow> error + bytes"

subsection \<open>Ignore functions\<close>

type_synonym IgnoreFunc = "Pod \<Rightarrow> bool"

definition IgnorePodsInHostNetwork :: IgnoreFunc where
  "IgnorePodsInHostNetwork = (\<lambda>p. HostNetwork (Pod.Spec p))"

definition IgnorePodsWithAnnotation :: "string \<Rightarrow> string \<Rightarrow> IgnoreFunc" where
  "IgnorePodsWithAnnotation k v = (\<lambda>p. index (GetAnnotations p) k = v)"

definition IgnorePodsWithoutAnnotation :: "string \<Rightarrow> string \<Rightarrow> IgnoreFunc" where
  "IgnorePodsWithoutAnnotation k v = (\<lambda>p. index (GetAnnotations p) k \<noteq> v)"

subsection \<open>The pod mutator\<close>

text \<open>
  The logger \<^verbatim>\<open>l\<close> of a \<^verbatim>\<open>PodMutator\<close> (and \<^verbatim>\<open>WithLogger\<close>) has no field here: what
  is logged is among the effects a review returns.
\<close>

type_synonym Patcher = "Pod \<Rightarrow> error + bytes"

record PodMutator =
  p :: Patcher
  ignore :: "IgnoreFunc list"

type_synonym PodMutatorOption = "PodMutator \<Rightarrow> PodMutator"

definition WithIgnoreFuncs :: "IgnoreFunc list \<Rightarrow> PodMutatorOption" where
  "WithIgnoreFuncs fn = (\<lambda>m. m\<lparr>ignore := fn\<rparr>)"

definition NewPodMutator :: "Patcher \<Rightarrow> PodMutatorOption list \<Rightarrow> PodMutator" where
  "NewPodMutator pt mo = foldl (\<lambda>m o'. o' m) \<lparr>p = pt, ignore = []\<rparr> mo"

definition admissionError :: "error \<Rightarrow> StatusReason \<Rightarrow> AdmissionResponse" where
  "admissionError err reason =
     \<lparr>AdmissionResponse.UID = '''', Allowed = False,
      Result = Some \<lparr>Status = StatusFailure, Reason = reason, Message = Error err\<rparr>,
      Patch = [], PatchType = None\<rparr>"

text \<open>
  The loop \<^verbatim>\<open>for _, ignore := range m.ignore\<close>: the functions are called in order and
  the loop is left at the first one that returns true. \<open>i\<close> is the position of the head of
  the list in \<^verbatim>\<open>m.ignore\<close>.
\<close>

fun ignore_loop :: "IgnoreFunc list \<Rightarrow> Pod \<Rightarrow> nat \<Rightarrow> bool \<times> event list" where
  "ignore_loop [] pod i = (False, [])"
| "ignore_loop (ig # rest) pod i =
     (if ig pod then (True, [CallIgnore i])
      else (case ignore_loop rest pod (Suc i) of (b, evs) \<Rightarrow> (b, CallIgnore i # evs)))"

definition Review :: "'d lib \<Rightarrow> PodMutator \<Rightarrow> AdmissionRequest \<Rightarrow> AdmissionResponse \<times> event list" where
  "Review lb m ar =
    (let log = [ZKind ''kind'' (AdmissionRequest.Kind ar),
                ZString ''namespace'' (Namespace ar),
                ZString ''name'' (Name ar)];
         tags = \<lparr>TagKind = AdmissionRequest.Kind ar, TagNamespace = Namespace ar,
                 TagName = Name ar, TagResult = None\<rparr>
     in
     if AdmissionRequest.Resource ar \<noteq> resourcePod then
       (let e = ''cannot review non-pod resource'' in
        (admissionError (New e) StatusReasonInvalid,
         [Info e (log @ [ZResource ''expected'' resourcePod,
                         ZResource ''observed'' (AdmissionRequest.Resource ar)]),
          Record (tags\<lparr>TagResult := Some tagResultError\<rparr>)]))
     else
       (case serializer_Decode lb (Raw (Object ar)) of
          Inl err \<Rightarrow>
            (let e = ''cannot decode object as a pod'' in
             (admissionError (Wrap err e) StatusReasonInvalid,
              [Info e (log @ [ZError err]),
               Record (tags\<lparr>TagResult := Some tagResultError\<rparr>)]))
        | Inr pod \<Rightarrow>
            (case ignore_loop (ignore m) pod 0 of
               (True, evs) \<Rightarrow>
                 (\<lparr>AdmissionResponse.UID = '''', Allowed = True, Result = None,
                   Patch = [], PatchType = None\<rparr>,
                  evs @ [Info ''not mutating ignored pod'' log,
                         Record (tags\<lparr>TagResult := Some tagResultIgnored\<rparr>)])
             | (False, evs) \<Rightarrow>
                 (case p m pod of
                    Inl err \<Rightarrow>
                      (let e = ''cannot patch pod'' in
                       (admissionError (Wrap err e) StatusReasonInternalError,
                        evs @ [CallPatch pod, Info e (log @ [ZError err]),
                               Record (tags\<lparr>TagResult := Some tagResultError\<rparr>)]))
                  | Inr patch \<Rightarrow>
                      (\<lparr>AdmissionResponse.UID = AdmissionRequest.UID ar, Allowed = True,
                        Result = None, Patch = patch, PatchType = Some jsonPatch\<rparr>,
                       evs @ [CallPatch pod, Debug ''mutated pod'' log,
                              Record (tags\<lparr>TagResult := Some tagResultMutated\<rparr>)])))))"

subsection \<open>The mutation and its patch\<close>

record TypeMeta =
  Kind :: string
  APIVersion :: string

record PodMutationStrategy =
  Overwrite :: bool
  Append :: bool

record PodMutationTemplate =
  ObjectMeta :: obj
  Spec :: obj

record PodMutationSpec =
  Strategy :: PodMutationStrategy
  Template :: PodMutationTemplate

record PodMutation =
  TypeMeta :: TypeMeta
  ObjectMeta :: obj
  Spec :: PodMutationSpec

text \<open>
  Modelled from the spec: the type \<^verbatim>\<open>jsonpatch.ByPath\<close> (github.com/appscode/jsonpatch),
  whose \<^verbatim>\<open>Less\<close> gives \<^verbatim>\<open>sort.Sort(jsonpatch.ByPath(patch))\<close> its order, is missing.
  The specification: operations are sorted by lexical path order. That is the order of
  \<^verbatim>\<open>a[i].Path < a[j].Path\<close>, Go's comparison of strings byte by byte, and the
  lexicographic order of \<open>string\<close> here. \<^verbatim>\<open>sort.Sort\<close> is not stable; \<open>sort_key\<close> is
  one sorting function, and lemma \<open>ByPath_sorted_unique\<close> below shows that the order of
  the result does not depend on the sorting function when no two operations share a path.
\<close>

definition sort_ByPath :: "JsonPatchOperation list \<Rightarrow> JsonPatchOperation list" where
  "sort_ByPath patch = sort_key Path patch"

text \<open>
  \<^verbatim>\<open>PodMutation.Patch\<close> in three stages: the options \<^verbatim>\<open>mo\<close>, the copy of the pod with
  the template merged in (\<open>inject\<close>, up to the second \<^verbatim>\<open>mergo.Merge\<close>), the operations as
  they stand after \<^verbatim>\<open>sort.Sort\<close> (\<open>Patch_operations\<close>) and the marshalled patch.
  \<^verbatim>\<open>DeepCopyInto\<close> is the identity on values.
\<close>

definition merge_options :: "PodMutation \<Rightarrow> mergo_option list" where
  "merge_options m =
     (if Overwrite (Strategy (PodMutation.Spec m)) then [WithOverride] else []) @
     (if Append (Strategy (PodMutation.Spec m)) then [WithAppendSlice] else [])"

definition inject :: "'d lib \<Rightarrow> PodMutation \<Rightarrow> Pod \<Rightarrow> error + Pod" where
  "inject lb m original =
    (let injected = original; mo = merge_options m in
     case mergo_Merge lb (Pod.ObjectMeta injected)
            (PodMutationTemplate.ObjectMeta (Template (PodMutation.Spec m))) mo of
       Inl err \<Rightarrow> Inl (Wrap err ''cannot inject pod metadata'')
     | Inr om \<Rightarrow>
         (case mergo_Merge lb (Pod.Spec injected)
                 (PodMutationTemplate.Spec (Template (PodMutation.Spec m))) mo of
            Inl err \<Rightarrow> Inl (Wrap err ''cannot inject pod spec'')
          | Inr sp \<Rightarrow> Inr (injected\<lparr>Pod.ObjectMeta := om, Pod.Spec := sp\<rparr>)))"

definition Patch_operations :: "'d lib \<Rightarrow> PodMutation \<Rightarrow> Pod \<Rightarrow> error + JsonPatchOperation list" where
  "Patch_operations lb m original =
    (case inject lb m original of
       Inl err \<Rightarrow> Inl err
     | Inr injected \<Rightarrow>
         (case serializer_Encode lb original of
            Inl err \<Rightarrow> Inl (Wrap err ''cannot encode original pod as JSON'')
          | Inr ob \<Rightarrow>
              (case serializer_Encode lb injected of
                 Inl err \<Rightarrow> Inl (Wrap err ''cannot encode patched pod as JSON'')
               | Inr pb \<Rightarrow>
                   (case jsonpatch_CreatePatch lb ob pb of
                      Inl err \<Rightarrow> Inl (Wrap err ''cannot create patch'')
                    | Inr patch \<Rightarrow> Inr (sort_ByPath patch)))))"

definition Patch :: "'d lib \<Rightarrow> PodMutation \<Rightarrow> Patcher" where
  "Patch lb m original =
    (case Patch_operations lb m original of
       Inl err \<Rightarrow> Inl err
     | Inr patch \<Rightarrow>
         (case json_Marshal lb patch of
            Inl err \<Rightarrow> Inl (Wrap err ''cannot encode patch as JSON'')
          | Inr b \<Rightarrow> Inr b))"

subsection \<open>The webhook handler\<close>

text \<open>
  \<^verbatim>\<open>http.Error(w, msg, code)\<close> answers with the status \<open>code\<close> and the message followed by
  a newline (the handler's test expects \<^verbatim>\<open>"cannot parse empty request body\n"\<close>); a
  handler that only writes a body answers with status 200. The handler's argument \<open>body\<close>
  is the result of \<^verbatim>\<open>ioutil.ReadAll(rq.Body)\<close>; \<open>decode\<close> and \<open>encode\<close> are the
  serializer at the type \<^verbatim>\<open>AdmissionReview\<close>. Beside the HTTP response the model returns
  the requests that were handed to \<^verbatim>\<open>r.Review\<close>.
\<close>

record http_response =
  StatusCode :: nat
  Body :: bytes

definition StatusBadRequest :: nat where "StatusBadRequest = 400"
definition StatusOK :: nat where "StatusOK = 200"

definition http_Error :: "string \<Rightarrow> nat \<Rightarrow> http_response" where
  "http_Error msg code = \<lparr>StatusCode = code, Body = msg @ [CHR 0x0A]\<rparr>"

type_synonym Reviewer = "AdmissionRequest \<Rightarrow> AdmissionResponse"

definition AdmissionReviewWebhook ::
  "Reviewer \<Rightarrow> (bytes \<Rightarrow> error + AdmissionReview) \<Rightarrow> (AdmissionReview \<Rightarrow> bytes) \<Rightarrow>
   error + bytes \<Rightarrow> http_response \<times> AdmissionRequest list" where
  "AdmissionReviewWebhook r decode encode body =
    (case body of
       Inl err \<Rightarrow> (http_Error (Error (Wrap err ''cannot read request body'')) StatusBadRequest, [])
     | Inr b \<Rightarrow>
         if length b = 0 then
           (http_Error ''cannot parse empty request body'' StatusBadRequest, [])
         else
           (case decode b of
              Inl err \<Rightarrow>
                (http_Error (Error (Wrap err ''cannot decode request body as admission review''))
                   StatusBadRequest, [])
            | Inr ar \<Rightarrow>
                (case Request ar of
                   None \<Rightarrow>
                     (http_Error ''admission review must contain a request'' StatusBadRequest, [])
                 | Some rq \<Rightarrow>
                     (\<lparr>StatusCode = StatusOK,
                       Body = encode \<lparr>Request = None, Response = Some (r rq)\<rparr>\<rparr>,
                      [rq]))))"

section \<open>The imported functions, as the specification describes them\<close>

text \<open>
  The packages below are not in the repository. Each definition of this section follows the
  specification's description of the component (Merge Engine, Patch Generator), so that the
  claims about what a merge or a diff returns can be stated on \<^verbatim>\<open>Patch\<close>.
\<close>

subsection \<open>Merge Engine (mergo.Merge)\<close>

text \<open>
  Modelled from the spec: \<^verbatim>\<open>mergo.Merge\<close> (github.com/imdario/mergo) is missing. The
  specification's contract: fields present in the template but unset in the original are
  always populated; scalar and map fields set in both: the template wins iff
  \<^verbatim>\<open>overwrite\<close>, otherwise the original is kept; sequence fields set in both: with
  \<^verbatim>\<open>append\<close> the template's elements are appended after the original's, otherwise the
  template replaces the sequence iff \<^verbatim>\<open>overwrite\<close>; nested objects and maps are merged
  field by field with the same rules; a template field of a kind that differs from the
  original's (a scalar where a sequence is expected) is an error. \<open>ow\<close> and \<open>ap\<close> are the
  two strategy flags, \<open>merge_fields\<close> treats the fields of the original in order and
  \<open>new_fields\<close> are the template's fields that the original does not set.
\<close>

definition MergeError :: error where
  "MergeError = New ''type-incompatible template field''"

definition new_fields :: "obj \<Rightarrow> obj \<Rightarrow> obj" where
  "new_fields fs gs = filter (\<lambda>(k, v). map_of fs k = None) gs"

fun merge_val :: "bool \<Rightarrow> bool \<Rightarrow> val \<Rightarrow> val \<Rightarrow> error + val"
and merge_fields :: "bool \<Rightarrow> bool \<Rightarrow> obj \<Rightarrow> obj \<Rightarrow> error + obj" where
  "merge_val ow ap (Scalar a) (Scalar b) = Inr (if ow then Scalar b else Scalar a)"
| "merge_val ow ap (Seq xs) (Seq ys) =
     Inr (if ap then Seq (xs @ ys) else if ow then Seq ys else Seq xs)"
| "merge_val ow ap (Obj fs) (Obj gs) =
     (case merge_fields ow ap fs gs of
        Inl err \<Rightarrow> Inl err
      | Inr fs' \<Rightarrow> Inr (Obj (fs' @ new_fields fs gs)))"
| "merge_val ow ap _ _ = Inl MergeError"
| "merge_fields ow ap [] gs = Inr []"
| "merge_fields ow ap ((k, ov) # fs) gs =
     (case map_of gs k of
        None \<Rightarrow>
          (case merge_fields ow ap fs gs of
             Inl err \<Rightarrow> Inl err
           | Inr fs' \<Rightarrow> Inr ((k, ov) # fs'))
      | Some tv \<Rightarrow>
          (case merge_val ow ap ov tv of
             Inl err \<Rightarrow> Inl err
           | Inr v \<Rightarrow>
               (case merge_fields ow ap fs gs of
                  Inl err \<Rightarrow> Inl err
                | Inr fs' \<Rightarrow> Inr ((k, v) # fs'))))"

definition merge :: "obj \<Rightarrow> obj \<Rightarrow> mergo_option list \<Rightarrow> error + obj" where
  "merge dst src mo =
     (case merge_fields (WithOverride \<in> set mo) (WithAppendSlice \<in> set mo) dst src of
        Inl err \<Rightarrow> Inl err
      | Inr fs' \<Rightarrow> Inr (fs' @ new_fields dst src))"

subsection \<open>Patch Generator (serializer.Encode, jsonpatch.CreatePatch, json.Marshal)\<close>

text \<open>
  Modelled from the spec: \<^verbatim>\<open>serializer.Encode\<close> (k8s.io/apimachinery) is missing. The
  canonical structured form of a pod: an object with the pod's metadata and spec.
\<close>

definition encode_pod :: "Pod \<Rightarrow> val" where
  "encode_pod pd = Obj [(''metadata'', Obj (Pod.ObjectMeta pd)), (''spec'', Obj (Pod.Spec pd))]"

text \<open>
  Modelled from the spec: \<^verbatim>\<open>jsonpatch.CreatePatch\<close> (github.com/appscode/jsonpatch) is
  missing. The specification's contract: \<^verbatim>\<open>add\<close> for newly present paths,
  \<^verbatim>\<open>replace\<close> for changed leaf values at existing paths, \<^verbatim>\<open>remove\<close> for paths present
  before and absent after; array elements are addressed by positional index and appended
  elements get \<^verbatim>\<open>add\<close> operations at the trailing indexes; paths are JSON Pointers
  (\<open>escape\<close> is the escaping of RFC 6901, \<open>digits\<close> the decimal numeral of an index).
  \<open>diff_fields\<close> treats the fields of the object after the change in order; \<open>seen\<close> are
  the names already treated, so that a name is compared once.
\<close>

fun digits :: "nat \<Rightarrow> string" where
  "digits n =
     (if n < 10 then [''0123456789'' ! n]
      else digits (n div 10) @ [''0123456789'' ! (n mod 10)])"

fun escape :: "string \<Rightarrow> string" where
  "escape [] = []"
| "escape (c # cs) =
     (if c = CHR ''~'' then ''~0'' @ escape cs
      else if c = CHR ''/'' then ''~1'' @ escape cs
      else c # escape cs)"

definition makePath :: "string \<Rightarrow> string \<Rightarrow> string" where
  "makePath path key = path @ ''/'' @ escape key"

definition NewPatch :: "string \<Rightarrow> string \<Rightarrow> val option \<Rightarrow> JsonPatchOperation" where
  "NewPatch op' path v = \<lparr>Operation = op', Path = path, Value = v\<rparr>"

fun diff_val :: "string \<Rightarrow> val \<Rightarrow> val \<Rightarrow> JsonPatchOperation list"
and diff_fields :: "string \<Rightarrow> obj \<Rightarrow> obj \<Rightarrow> string list \<Rightarrow> JsonPatchOperation list"
and diff_seq :: "string \<Rightarrow> nat \<Rightarrow> val list \<Rightarrow> val list \<Rightarrow> JsonPatchOperation list" where
  "diff_val path (Obj fs) (Obj gs) =
     diff_fields path fs gs [] @
     map (\<lambda>k. NewPatch ''remove'' (makePath path k) None)
       (filter (\<lambda>k. map_of gs k = None) (remdups (map fst fs)))"
| "diff_val path (Seq xs) (Seq ys) = diff_seq path 0 xs ys"
| "diff_val path (Scalar a) (Scalar b) =
     (if a = b then [] else [NewPatch ''replace'' path (Some (Scalar b))])"
| "diff_val path (Scalar a) (Seq ys) = [NewPatch ''replace'' path (Some (Seq ys))]"
| "diff_val path (Scalar a) (Obj gs) = [NewPatch ''replace'' path (Some (Obj gs))]"
| "diff_val path (Seq xs) (Scalar b) = [NewPatch ''replace'' path (Some (Scalar b))]"
| "diff_val path (Seq xs) (Obj gs) = [NewPatch ''replace'' path (Some (Obj gs))]"
| "diff_val path (Obj fs) (Scalar b) = [NewPatch ''replace'' path (Some (Scalar b))]"
| "diff_val path (Obj fs) (Seq ys) = [NewPatch ''replace'' path (Some (Seq ys))]"
| "diff_fields path fs [] seen = []"
| "diff_fields path fs ((k, v) # gs) seen =
     (if k \<in> set seen then []
      else (case map_of fs k of
              None \<Rightarrow> [NewPatch ''add'' (makePath path k) (Some v)]
            | Some a \<Rightarrow> diff_val (makePath path k) a v)) @
     diff_fields path fs gs (k # seen)"
| "diff_seq path i [] [] = []"
| "diff_seq path i (x # xs) [] =
     diff_seq path (Suc i) xs [] @ [NewPatch ''remove'' (makePath path (digits i)) None]"
| "diff_seq path i [] (y # ys) =
     NewPatch ''add'' (makePath path (digits i)) (Some y) # diff_seq path (Suc i) [] ys"
| "diff_seq path i (x # xs) (y # ys) =
     diff_val (makePath path (digits i)) x y @ diff_seq path (Suc i) xs ys"

text \<open>
  Modelled from the spec: \<^verbatim>\<open>json.Marshal\<close> of the operations (encoding/json with
  jsonpatch's \<^verbatim>\<open>MarshalJSON\<close>) is missing. The patch payload is the JSON array of the
  operations, each an object with \<^verbatim>\<open>op\<close>, \<^verbatim>\<open>path\<close> and, when there is one,
  \<^verbatim>\<open>value\<close>, without whitespace; the repository's tests expect
  \<^verbatim>\<open>[{"op":"add","path":"/metadata/annotations/supercool","value":"alsotrue"}]\<close> and,
  for no operation, \<^verbatim>\<open>[]\<close>.
\<close>

fun escape_char :: "char \<Rightarrow> string" where
  "escape_char c =
     (if c = CHR 0x22 then [CHR 0x5C, CHR 0x22]
      else if c = CHR 0x5C then [CHR 0x5C, CHR 0x5C]
      else [c])"

definition quote :: "string \<Rightarrow> string" where
  "quote s = [CHR 0x22] @ concat (map escape_char s) @ [CHR 0x22]"

fun join :: "string \<Rightarrow> string list \<Rightarrow> string" where
  "join sep [] = []"
| "join sep [x] = x"
| "join sep (x # y # zs) = x @ sep @ join sep (y # zs)"

fun render_val :: "val \<Rightarrow> string" where
  "render_val (Scalar (Str s)) = quote s"
| "render_val (Scalar (Num n)) = (if n < 0 then ''-'' @ digits (nat (- n)) else digits (nat n))"
| "render_val (Scalar (Bool b)) = (if b then ''true'' else ''false'')"
| "render_val (Seq xs) = ''['' @ join '','' (map render_val xs) @ '']''"
| "render_val (Obj fs) =
     ''{'' @ join '','' (map (\<lambda>(k, v). quote k @ '':'' @ render_val v) fs) @ ''}''"

definition render_op :: "JsonPatchOperation \<Rightarrow> string" where
  "render_op op' =
     ''{'' @ quote ''op'' @ '':'' @ quote (Operation op') @ '','' @
     quote ''path'' @ '':'' @ quote (Path op') @
     (case Value op' of None \<Rightarrow> [] | Some v \<Rightarrow> '','' @ quote ''value'' @ '':'' @ render_val v) @
     ''}''"

definition marshal :: "JsonPatchOperation list \<Rightarrow> error + bytes" where
  "marshal patch = Inr (''['' @ join '','' (map render_op patch) @ '']'')"

text \<open>
  The imported functions as described above; the decoder of pods, of which the
  specification fixes nothing but its interface, stays an argument.
\<close>

definition spec_lib :: "(bytes \<Rightarrow> error + Pod) \<Rightarrow> val lib" where
  "spec_lib dec =
     \<lparr>mergo_Merge = merge,
      serializer_Encode = (\<lambda>pd. Inr (encode_pod pd)),
      serializer_Decode = dec,
      jsonpatch_CreatePatch = (\<lambda>a b. Inr (diff_val [] a b)),
      json_Marshal = marshal\<rparr>"

section \<open>Notions used to state the properties\<close>

text \<open>The calls recorded in the effects of a review.\<close>

fun ignore_calls :: "event list \<Rightarrow> nat list" where
  "ignore_calls [] = []"
| "ignore_calls (CallIgnore i # evs) = i # ignore_calls evs"
| "ignore_calls (_ # evs) = ignore_calls evs"

fun patch_calls :: "event list \<Rightarrow> Pod list" where
  "patch_calls [] = []"
| "patch_calls (CallPatch pd # evs) = pd # patch_calls evs"
| "patch_calls (_ # evs) = patch_calls evs"

text \<open>
  The three shapes of a response. An allowed response carries the patch type exactly when
  it is the patched one; its payload is whatever the patcher returned.
\<close>

definition allowed_unmodified :: "AdmissionResponse \<Rightarrow> bool" where
  "allowed_unmodified r \<longleftrightarrow>
     Allowed r \<and> AdmissionResponse.Patch r = [] \<and> PatchType r = None \<and> Result r = None"

definition allowed_with_patch :: "AdmissionResponse \<Rightarrow> bool" where
  "allowed_with_patch r \<longleftrightarrow>
     Allowed r \<and> PatchType r = Some jsonPatch \<and> Result r = None"

definition rejected :: "AdmissionResponse \<Rightarrow> bool" where
  "rejected r \<longleftrightarrow>
     \<not> Allowed r \<and> AdmissionResponse.Patch r = [] \<and> PatchType r = None \<and>
     (case Result r of None \<Rightarrow> False | Some st \<Rightarrow> Status st = StatusFailure)"

text \<open>\<^verbatim>\<open>strings.HasPrefix\<close> and \<^verbatim>\<open>strings.Contains\<close>, to say that a message names a kind.\<close>

fun HasPrefix :: "string \<Rightarrow> string \<Rightarrow> bool" where
  "HasPrefix s [] = True"
| "HasPrefix [] (c # cs) = False"
| "HasPrefix (x # xs) (c # cs) = (x = c \<and> HasPrefix xs cs)"

fun Contains :: "string \<Rightarrow> string \<Rightarrow> bool" where
  "Contains [] substr = (substr = [])"
| "Contains (x # xs) substr = (HasPrefix (x # xs) substr \<or> Contains xs substr)"

text \<open>
  The value at a path of field names: \<open>field_at [k\<^sub>1, \<dots>, k\<^sub>n] fs\<close> descends through the
  nested objects \<open>k\<^sub>1, \<dots>, k\<^sub>n\<^sub>-\<^sub>1\<close> and reads the field \<open>k\<^sub>n\<close>.
\<close>

fun field_at :: "string list \<Rightarrow> obj \<Rightarrow> val option" where
  "field_at [] fs = None"
| "field_at [k] fs = map_of fs k"
| "field_at (k # k' # ks) fs =
     (case map_of fs k of Some (Obj fs') \<Rightarrow> field_at (k' # ks) fs' | _ \<Rightarrow> None)"

section \<open>The fixtures of the repository's tests\<close>

text \<open>
  \<^verbatim>\<open>coolPod\<close>, \<^verbatim>\<open>coolPatch\<close> and \<^verbatim>\<open>predictablePatcher\<close> of the test file, used as
  concrete inputs. \<open>mutation\<close> builds a \<^verbatim>\<open>PodMutation\<close> from its strategy and template,
  \<open>request\<close> an admission request for an object; \<open>known_pods\<close> decodes the encodings of
  the pods it is given and nothing else.
\<close>

definition coolPatch :: bytes where
  "coolPatch = ''coolpatch''"

definition coolPod :: Pod where
  "coolPod =
     \<lparr>Pod.ObjectMeta =
        [(''name'', Scalar (Str ''coolpod'')),
         (''namespace'', Scalar (Str ''coolnamespace'')),
         (''labels'', Obj [(''cool'', Scalar (Str ''true''))]),
         (''annotations'', Obj [(''cool'', Scalar (Str ''true''))])],
      Pod.Spec =
        [(''containers'',
            Seq [Obj [(''name'', Scalar (Str ''coolcontainer'')),
                      (''image'', Scalar (Str ''coolimage:coolest'')),
                      (''command'', Seq [Scalar (Str ''/cool'')]),
                      (''args'', Seq [Scalar (Str ''-very'')])]]),
         (''dnsPolicy'', Scalar (Str ''ClusterFirst''))]\<rparr>"

definition hostNetworkPod :: Pod where
  "hostNetworkPod = \<lparr>Pod.ObjectMeta = [], Pod.Spec = [(''hostNetwork'', Scalar (Bool True))]\<rparr>"

definition predictablePatcher :: "bytes \<Rightarrow> error option \<Rightarrow> Patcher" where
  "predictablePatcher patch err = (\<lambda>_. case err of Some e \<Rightarrow> Inl e | None \<Rightarrow> Inr patch)"

definition mutation :: "bool \<Rightarrow> bool \<Rightarrow> obj \<Rightarrow> obj \<Rightarrow> PodMutation" where
  "mutation ow ap meta spec =
     \<lparr>TypeMeta = \<lparr>TypeMeta.Kind = '''', APIVersion = ''''\<rparr>, PodMutation.ObjectMeta = [],
      PodMutation.Spec =
        \<lparr>Strategy = \<lparr>Overwrite = ow, Append = ap\<rparr>,
         Template = \<lparr>PodMutationTemplate.ObjectMeta = meta, PodMutationTemplate.Spec = spec\<rparr>\<rparr>\<rparr>"

definition request :: "string \<Rightarrow> GroupVersionResource \<Rightarrow> bytes \<Rightarrow> AdmissionRequest" where
  "request uid res raw =
     \<lparr>AdmissionRequest.UID = uid,
      AdmissionRequest.Kind = \<lparr>GroupVersionKind.Group = '''', Version = ''v1'', Kind = ''Pod''\<rparr>,
      AdmissionRequest.Resource = res,
      Name = ''coolpod'', Namespace = ''coolnamespace'',
      Object = \<lparr>Raw = raw\<rparr>\<rparr>"

definition known_pods :: "Pod list \<Rightarrow> bytes \<Rightarrow> error + Pod" where
  "known_pods pds b =
     (case find (\<lambda>pd. render_val (encode_pod pd) = b) pds of
        Some pd \<Rightarrow> Inr pd
      | None \<Rightarrow> Inl (New ''couldn't get version/kind; json parse error''))"

definition test_lib :: "val lib" where
  "test_lib = spec_lib (known_pods [coolPod, hostNetworkPod])"

definition configmaps :: GroupVersionResource where
  "configmaps = \<lparr>GroupVersionResource.Group = '''', Version = ''v1'', Resource = ''configmaps''\<rparr>"

text \<open>
  A mutator with a predictable patcher and three ignore functions, of which the second is
  the first to match a pod in the host network and none matches \<open>coolPod\<close>.
\<close>

definition coolMutator :: PodMutator where
  "coolMutator =
     NewPodMutator (predictablePatcher coolPatch None)
       [WithIgnoreFuncs
          [IgnorePodsWithAnnotation ''cool'' ''nope'', IgnorePodsInHostNetwork,
           IgnorePodsWithoutAnnotation ''cool'' ''true'']]"

text \<open>
  The handler's test: a reviewer that answers with a fixed response, a decoder of reviews
  that knows the empty review, and the encoding of a response that carries neither patch
  nor result (the test expects \<^verbatim>\<open>{"response":{"uid":"","allowed":true}}\<close> and a newline).
\<close>

definition predictableReviewer :: "AdmissionResponse \<Rightarrow> Reviewer" where
  "predictableReviewer rsp = (\<lambda>_. rsp)"

definition allowedResponse :: AdmissionResponse where
  "allowedResponse =
     \<lparr>AdmissionResponse.UID = '''', Allowed = True, Result = None, Patch = [], PatchType = None\<rparr>"

definition decode_review :: "bytes \<Rightarrow> error + AdmissionReview" where
  "decode_review b =
     (if b = ''{}'' then Inr \<lparr>Request = None, Response = None\<rparr>
      else Inl (New ''couldn't get version/kind; json parse error''))"

definition encode_review :: "AdmissionReview \<Rightarrow> bytes" where
  "encode_review rv =
     render_val
       (Obj (case Response rv of
               None \<Rightarrow> []
             | Some rsp \<Rightarrow>
                 [(''response'',
                   Obj [(''uid'', Scalar (Str (AdmissionResponse.UID rsp))),
                        (''allowed'', Scalar (Bool (Allowed rsp)))])])) @
     [CHR 0x0A]"

text \<open>
  The mutations of \<^verbatim>\<open>TestPatch\<close> (\<^verbatim>\<open>AddAnnotation\<close>, \<^verbatim>\<open>AddContainer\<close>,
  \<^verbatim>\<open>OverrideNameservers\<close>) and a template that sets an annotation \<open>coolPod\<close>
  already has. \<open>reversed_CreatePatch\<close> returns the operations of \<open>diff_val\<close> in the opposite order.
\<close>

definition addAnnotation :: PodMutation where
  "addAnnotation =
     mutation False False [(''annotations'', Obj [(''supercool'', Scalar (Str ''alsotrue''))])] []"

definition addContainer :: PodMutation where
  "addContainer =
     mutation False True []
       [(''containers'',
           Seq [Obj [(''name'', Scalar (Str ''coolercontainer'')),
                     (''image'', Scalar (Str ''extracool:somehowmorecool''))]])]"

definition overrideNameservers :: PodMutation where
  "overrideNameservers =
     mutation True False []
       [(''dnsPolicy'', Scalar (Str ''None'')),
        (''dnsConfig'', Obj [(''nameservers'', Seq [Scalar (Str ''127.0.0.1'')])])]"

definition setCoolAnnotation :: PodMutation where
  "setCoolAnnotation =
     mutation False False [(''annotations'', Obj [(''cool'', Scalar (Str ''nope''))])] []"








section \<open>Properties\<close>

subsection \<open>The ignore loop\<close>

lemma ignore_loop_fst: "fst (ignore_loop igs pod i) = (\<exists>ig\<in>set igs. ig pod)"
  by (induction igs pod i rule: ignore_loop.induct) (auto split: prod.splits)

lemma ignore_loop_patch_calls: "patch_calls (snd (ignore_loop igs pod i)) = []"
  by (induction igs pod i rule: ignore_loop.induct) (auto split: prod.splits)

lemma upt_add_Suc: "[i ..< i + Suc n] = i # [Suc i ..< Suc i + n]"
proof -
  have "i < i + Suc n" by simp
  then have "[i ..< i + Suc n] = i # [Suc i ..< i + Suc n]" by (rule upt_conv_Cons)
  then show ?thesis by (simp only: add_Suc_right add_Suc)
qed

lemma ignore_loop_step:
  "\<not> ig pod \<Longrightarrow>
   ignore_calls (snd (ignore_loop (ig # rest) pod i)) =
     i # ignore_calls (snd (ignore_loop rest pod (Suc i)))"
  by (simp split: prod.splits)

lemma ignore_loop_ignore_calls:
  "\<exists>ig\<in>set igs. ig pod \<Longrightarrow>
   ignore_calls (snd (ignore_loop igs pod i)) =
     [i ..< i + Suc (length (takeWhile (\<lambda>ig. \<not> ig pod) igs))]"
proof (induction igs arbitrary: i)
  case Nil
  then show ?case by simp
next
  case (Cons ig rest)
  show ?case
  proof (cases "ig pod")
    case True
    have "[i ..< i + Suc 0] = [i]" by (simp only: upt_add_Suc) simp
    with True show ?thesis by simp
  next
    case False
    with Cons.prems have ex: "\<exists>ig\<in>set rest. ig pod" by auto
    let ?n = "length (takeWhile (\<lambda>ig. \<not> ig pod) rest)"
    have "ignore_calls (snd (ignore_loop (ig # rest) pod i)) = i # [Suc i ..< Suc i + Suc ?n]"
      using False ignore_loop_step [of ig pod rest i] Cons.IH [OF ex, of "Suc i"] by simp
    also have "\<dots> = [i ..< i + Suc (Suc ?n)]"
      by (rule upt_add_Suc [symmetric])
    finally show ?thesis using False by simp
  qed
qed

lemma ignore_loop_no_match:
  "\<not> (\<exists>ig\<in>set igs. ig pod) \<Longrightarrow>
   ignore_calls (snd (ignore_loop igs pod i)) = [i ..< i + length igs]"
proof (induction igs arbitrary: i)
  case Nil
  then show ?case by simp
next
  case (Cons ig rest)
  then have no: "\<not> ig pod" and rest: "\<not> (\<exists>ig\<in>set rest. ig pod)" by auto
  have "ignore_calls (snd (ignore_loop (ig # rest) pod i)) = i # [Suc i ..< Suc i + length rest]"
    using no ignore_loop_step [of ig pod rest i] Cons.IH [OF rest, of "Suc i"] by simp
  also have "\<dots> = [i ..< i + Suc (length rest)]"
    by (rule upt_add_Suc [symmetric])
  finally show ?case by simp
qed

lemma ignore_calls_append: "ignore_calls (xs @ ys) = ignore_calls xs @ ignore_calls ys"
  by (induction xs rule: ignore_calls.induct) auto

lemma patch_calls_append: "patch_calls (xs @ ys) = patch_calls xs @ patch_calls ys"
  by (induction xs rule: patch_calls.induct) auto

subsection \<open>Ignore functions with an empty value\<close>

text \<open>
  Claim C9. For every pod with no annotation under the key \<open>k\<close>, also a pod whose
  annotation map is absent altogether, \<^verbatim>\<open>IgnorePodsWithAnnotation(k, "")\<close> returns true
  and \<^verbatim>\<open>IgnorePodsWithoutAnnotation(k, "")\<close> returns false, because reading the missing
  key yields the empty string. A pod that carries the key with a value other than the
  empty string is treated the other way round.
\<close>

theorem IgnorePodsWithAnnotation_empty_value:
  "(GetAnnotations pd k = None \<longrightarrow>
      IgnorePodsWithAnnotation k '''' pd \<and> \<not> IgnorePodsWithoutAnnotation k '''' pd) \<and>
   (map_of (Pod.ObjectMeta pd) ''annotations'' = None \<longrightarrow>
      IgnorePodsWithAnnotation k '''' pd \<and> \<not> IgnorePodsWithoutAnnotation k '''' pd) \<and>
   (\<forall>v. GetAnnotations pd k = Some v \<and> v \<noteq> '''' \<longrightarrow>
      \<not> IgnorePodsWithAnnotation k '''' pd \<and> IgnorePodsWithoutAnnotation k '''' pd)"
  by (auto simp: IgnorePodsWithAnnotation_def IgnorePodsWithoutAnnotation_def index_def
      GetAnnotations_def)

theorem IgnorePodsWithAnnotation_empty_value_witness:
  "GetAnnotations coolPod ''supercool'' = None \<and>
   IgnorePodsWithAnnotation ''supercool'' '''' coolPod \<and>
   \<not> IgnorePodsWithoutAnnotation ''supercool'' '''' coolPod \<and>
   map_of (Pod.ObjectMeta hostNetworkPod) ''annotations'' = None \<and>
   IgnorePodsWithAnnotation ''cool'' '''' hostNetworkPod \<and>
   \<not> IgnorePodsWithoutAnnotation ''cool'' '''' hostNetworkPod \<and>
   GetAnnotations coolPod ''cool'' = Some ''true'' \<and>
   \<not> IgnorePodsWithAnnotation ''cool'' '''' coolPod \<and>
   IgnorePodsWithoutAnnotation ''cool'' '''' coolPod"
proof -
  have a: "GetAnnotations coolPod ''supercool'' = None"
    by (simp add: GetAnnotations_def coolPod_def)
  have b: "map_of (Pod.ObjectMeta hostNetworkPod) ''annotations'' = None"
    by (simp add: hostNetworkPod_def)
  have c: "GetAnnotations coolPod ''cool'' = Some ''true''"
    by (simp add: GetAnnotations_def coolPod_def)
  show ?thesis
    using a b c
      IgnorePodsWithAnnotation_empty_value [of coolPod "''supercool''"]
      IgnorePodsWithAnnotation_empty_value [of hostNetworkPod "''cool''"]
      IgnorePodsWithAnnotation_empty_value [of coolPod "''cool''"]
    by simp
qed

subsection \<open>The review pipeline\<close>

lemma Review_non_pod:
  assumes "AdmissionRequest.Resource ar \<noteq> resourcePod"
  shows "Review lb m ar =
    (admissionError (New ''cannot review non-pod resource'') StatusReasonInvalid,
     [Info ''cannot review non-pod resource''
        [ZKind ''kind'' (AdmissionRequest.Kind ar), ZString ''namespace'' (Namespace ar),
         ZString ''name'' (Name ar), ZResource ''expected'' resourcePod,
         ZResource ''observed'' (AdmissionRequest.Resource ar)],
      Record \<lparr>TagKind = AdmissionRequest.Kind ar, TagNamespace = Namespace ar,
              TagName = Name ar, TagResult = Some tagResultError\<rparr>])"
  using assms by (simp add: Review_def Let_def)

lemma Review_undecodable:
  assumes "AdmissionRequest.Resource ar = resourcePod"
    and "serializer_Decode lb (Raw (Object ar)) = Inl err"
  shows "Review lb m ar =
    (admissionError (Wrap err ''cannot decode object as a pod'') StatusReasonInvalid,
     [Info ''cannot decode object as a pod''
        [ZKind ''kind'' (AdmissionRequest.Kind ar), ZString ''namespace'' (Namespace ar),
         ZString ''name'' (Name ar), ZError err],
      Record \<lparr>TagKind = AdmissionRequest.Kind ar, TagNamespace = Namespace ar,
              TagName = Name ar, TagResult = Some tagResultError\<rparr>])"
  using assms by (simp add: Review_def Let_def)

lemma Review_ignored:
  assumes "AdmissionRequest.Resource ar = resourcePod"
    and "serializer_Decode lb (Raw (Object ar)) = Inr pod"
    and "\<exists>ig\<in>set (ignore m). ig pod"
  shows "Review lb m ar =
    (\<lparr>AdmissionResponse.UID = '''', Allowed = True, Result = None, Patch = [], PatchType = None\<rparr>,
     snd (ignore_loop (ignore m) pod 0) @
     [Info ''not mutating ignored pod''
        [ZKind ''kind'' (AdmissionRequest.Kind ar), ZString ''namespace'' (Namespace ar),
         ZString ''name'' (Name ar)],
      Record \<lparr>TagKind = AdmissionRequest.Kind ar, TagNamespace = Namespace ar,
              TagName = Name ar, TagResult = Some tagResultIgnored\<rparr>])"
proof -
  obtain b evs where il: "ignore_loop (ignore m) pod 0 = (b, evs)"
    by (cases "ignore_loop (ignore m) pod 0")
  then have "b = True"
    using ignore_loop_fst [of "ignore m" pod 0] assms(3) by simp
  with il show ?thesis
    using assms(1,2) by (simp add: Review_def Let_def)
qed

lemma Review_patch_error:
  assumes "AdmissionRequest.Resource ar = resourcePod"
    and "serializer_Decode lb (Raw (Object ar)) = Inr pod"
    and "\<not> (\<exists>ig\<in>set (ignore m). ig pod)"
    and "p m pod = Inl err"
  shows "Review lb m ar =
    (admissionError (Wrap err ''cannot patch pod'') StatusReasonInternalError,
     snd (ignore_loop (ignore m) pod 0) @
     [CallPatch pod,
      Info ''cannot patch pod''
        [ZKind ''kind'' (AdmissionRequest.Kind ar), ZString ''namespace'' (Namespace ar),
         ZString ''name'' (Name ar), ZError err],
      Record \<lparr>TagKind = AdmissionRequest.Kind ar, TagNamespace = Namespace ar,
              TagName = Name ar, TagResult = Some tagResultError\<rparr>])"
proof -
  obtain b evs where il: "ignore_loop (ignore m) pod 0 = (b, evs)"
    by (cases "ignore_loop (ignore m) pod 0")
  then have "b = False"
    using ignore_loop_fst [of "ignore m" pod 0] assms(3) by simp
  with il show ?thesis
    using assms(1,2,4) by (simp add: Review_def Let_def)
qed

lemma Review_mutated:
  assumes "AdmissionRequest.Resource ar = resourcePod"
    and "serializer_Decode lb (Raw (Object ar)) = Inr pod"
    and "\<not> (\<exists>ig\<in>set (ignore m). ig pod)"
    and "p m pod = Inr patch"
  shows "Review lb m ar =
    (\<lparr>AdmissionResponse.UID = AdmissionRequest.UID ar, Allowed = True, Result = None,
      Patch = patch, PatchType = Some jsonPatch\<rparr>,
     snd (ignore_loop (ignore m) pod 0) @
     [CallPatch pod,
      Debug ''mutated pod''
        [ZKind ''kind'' (AdmissionRequest.Kind ar), ZString ''namespace'' (Namespace ar),
         ZString ''name'' (Name ar)],
      Record \<lparr>TagKind = AdmissionRequest.Kind ar, TagNamespace = Namespace ar,
              TagName = Name ar, TagResult = Some tagResultMutated\<rparr>])"
proof -
  obtain b evs where il: "ignore_loop (ignore m) pod 0 = (b, evs)"
    by (cases "ignore_loop (ignore m) pod 0")
  then have "b = False"
    using ignore_loop_fst [of "ignore m" pod 0] assms(3) by simp
  with il show ?thesis
    using assms(1,2,4) by (simp add: Review_def Let_def)
qed

lemma Review_shape_cases:
  obtains
    (non_pod) "AdmissionRequest.Resource ar \<noteq> resourcePod"
  | (undecodable) err where "AdmissionRequest.Resource ar = resourcePod"
      "serializer_Decode lb (Raw (Object ar)) = Inl err"
  | (ignored) pod where "AdmissionRequest.Resource ar = resourcePod"
      "serializer_Decode lb (Raw (Object ar)) = Inr pod" "\<exists>ig\<in>set (ignore m). ig pod"
  | (patch_error) pod err where "AdmissionRequest.Resource ar = resourcePod"
      "serializer_Decode lb (Raw (Object ar)) = Inr pod" "\<not> (\<exists>ig\<in>set (ignore m). ig pod)"
      "p m pod = Inl err"
  | (mutated) pod patch where "AdmissionRequest.Resource ar = resourcePod"
      "serializer_Decode lb (Raw (Object ar)) = Inr pod" "\<not> (\<exists>ig\<in>set (ignore m). ig pod)"
      "p m pod = Inr patch"
proof (cases "AdmissionRequest.Resource ar = resourcePod")
  case False
  then show ?thesis by (rule non_pod)
next
  case res: True
  show ?thesis
  proof (cases "serializer_Decode lb (Raw (Object ar))")
    case (Inl err)
    with res show ?thesis by (rule undecodable)
  next
    case dec: (Inr pod)
    show ?thesis
    proof (cases "\<exists>ig\<in>set (ignore m). ig pod")
      case True
      with res dec show ?thesis by (rule ignored)
    next
      case no: False
      show ?thesis
      proof (cases "p m pod")
        case (Inl err)
        with res dec no show ?thesis by (rule patch_error)
      next
        case (Inr patch)
        with res dec no show ?thesis by (rule mutated)
      qed
    qed
  qed
qed

text \<open>
  Claim C2, as amended. For every admission request whose resource is not
  \<open>resourcePod\<close> (version \<^verbatim>\<open>v1\<close>, resource \<^verbatim>\<open>pods\<close>), \<^verbatim>\<open>Review\<close> returns the rejected
  response with reason \<^verbatim>\<open>Invalid\<close> and the fixed message
  \<^verbatim>\<open>cannot review non-pod resource\<close>; neither the patcher nor an ignore function is
  called. The expected and the observed resource are fields of the log entry, not part of
  the message.
\<close>

theorem Review_rejects_non_pod_resource:
  assumes "AdmissionRequest.Resource ar \<noteq> resourcePod"
  shows "fst (Review lb m ar) =
           \<lparr>AdmissionResponse.UID = '''', Allowed = False,
            Result = Some \<lparr>Status = StatusFailure, Reason = StatusReasonInvalid,
                           Message = ''cannot review non-pod resource''\<rparr>,
            Patch = [], PatchType = None\<rparr> \<and>
         patch_calls (snd (Review lb m ar)) = [] \<and>
         ignore_calls (snd (Review lb m ar)) = [] \<and>
         (\<exists>fields. Info ''cannot review non-pod resource'' fields \<in> set (snd (Review lb m ar)) \<and>
            ZResource ''expected'' resourcePod \<in> set fields \<and>
            ZResource ''observed'' (AdmissionRequest.Resource ar) \<in> set fields)"
  unfolding Review_non_pod [OF assms] by (simp add: admissionError_def)

lemma coolMutator_simps:
  "p coolMutator = predictablePatcher coolPatch None"
  "ignore coolMutator =
     [IgnorePodsWithAnnotation ''cool'' ''nope'', IgnorePodsInHostNetwork,
      IgnorePodsWithoutAnnotation ''cool'' ''true'']"
  by (simp_all add: coolMutator_def NewPodMutator_def WithIgnoreFuncs_def)

lemma configmaps_not_pods: "AdmissionRequest.Resource (request uid configmaps raw) \<noteq> resourcePod"
  by (simp add: request_def configmaps_def resourcePod_def)

theorem Review_rejects_non_pod_resource_witness:
  "AdmissionRequest.Resource (request ''uid-1'' configmaps []) \<noteq> resourcePod \<and>
   fst (Review test_lib coolMutator (request ''uid-1'' configmaps [])) =
      \<lparr>AdmissionResponse.UID = '''', Allowed = False,
       Result = Some \<lparr>Status = StatusFailure, Reason = StatusReasonInvalid,
                      Message = ''cannot review non-pod resource''\<rparr>,
       Patch = [], PatchType = None\<rparr> \<and>
   patch_calls (snd (Review test_lib coolMutator (request ''uid-1'' configmaps []))) = []"
  using configmaps_not_pods [of "''uid-1''" "[]"]
    Review_rejects_non_pod_resource [OF configmaps_not_pods, of test_lib coolMutator "''uid-1''" "[]"]
  by simp

text \<open>
  Claim C2 as stated asks for a message that names both the expected and the observed
  kind. For a request for \<^verbatim>\<open>configmaps\<close> the message of the response contains neither
  \<^verbatim>\<open>pods\<close> nor \<^verbatim>\<open>configmaps\<close>.
\<close>

theorem Review_non_pod_message_counterexample:
  "map_option Message (Result (fst (Review test_lib coolMutator (request ''uid-1'' configmaps [])))) =
     Some ''cannot review non-pod resource'' \<and>
   \<not> Contains ''cannot review non-pod resource'' (GroupVersionResource.Resource resourcePod) \<and>
   \<not> Contains ''cannot review non-pod resource'' (GroupVersionResource.Resource configmaps)"
  using Review_non_pod [where ar = "request ''uid-1'' configmaps []" and lb = test_lib
      and m = coolMutator, OF configmaps_not_pods]
  by (simp add: admissionError_def resourcePod_def configmaps_def)

text \<open>
  Claim C3. For a request for the pod resource whose object decodes to a pod, and any chain
  of ignore functions of which one returns true on that pod, \<^verbatim>\<open>Review\<close> returns the
  allowed response without patch and patch type, the patcher is not called, and the ignore
  functions called are exactly those up to and including the first that matches.
\<close>

theorem Review_ignore_short_circuit:
  assumes "AdmissionRequest.Resource ar = resourcePod"
    and "serializer_Decode lb (Raw (Object ar)) = Inr pod"
    and "\<exists>ig\<in>set (ignore m). ig pod"
  shows "fst (Review lb m ar) =
           \<lparr>AdmissionResponse.UID = '''', Allowed = True, Result = None,
            Patch = [], PatchType = None\<rparr> \<and>
         patch_calls (snd (Review lb m ar)) = [] \<and>
         ignore_calls (snd (Review lb m ar)) =
           [0 ..< Suc (length (takeWhile (\<lambda>ig. \<not> ig pod) (ignore m)))]"
  unfolding Review_ignored [OF assms]
  using ignore_loop_ignore_calls [OF assms(3), of 0]
  by (simp add: patch_calls_append ignore_calls_append ignore_loop_patch_calls)

lemma known_hostNetworkPod:
  "serializer_Decode test_lib (render_val (encode_pod hostNetworkPod)) = Inr hostNetworkPod"
  by (simp add: test_lib_def spec_lib_def known_pods_def encode_pod_def coolPod_def
      hostNetworkPod_def quote_def)

lemma known_coolPod:
  "serializer_Decode test_lib (render_val (encode_pod coolPod)) = Inr coolPod"
  by (simp add: test_lib_def spec_lib_def known_pods_def encode_pod_def coolPod_def
      hostNetworkPod_def quote_def)

lemma request_simps:
  "AdmissionRequest.Resource (request uid res raw) = res"
  "Raw (Object (request uid res raw)) = raw"
  "AdmissionRequest.UID (request uid res raw) = uid"
  by (simp_all add: request_def)

theorem Review_ignore_short_circuit_witness:
  "AdmissionRequest.Resource (request ''uid-2'' resourcePod (render_val (encode_pod hostNetworkPod)))
     = resourcePod \<and>
   serializer_Decode test_lib
     (Raw (Object (request ''uid-2'' resourcePod (render_val (encode_pod hostNetworkPod)))))
     = Inr hostNetworkPod \<and>
   IgnorePodsInHostNetwork hostNetworkPod \<and>
   fst (Review test_lib coolMutator
          (request ''uid-2'' resourcePod (render_val (encode_pod hostNetworkPod)))) =
     \<lparr>AdmissionResponse.UID = '''', Allowed = True, Result = None, Patch = [], PatchType = None\<rparr> \<and>
   patch_calls (snd (Review test_lib coolMutator
          (request ''uid-2'' resourcePod (render_val (encode_pod hostNetworkPod))))) = [] \<and>
   ignore_calls (snd (Review test_lib coolMutator
          (request ''uid-2'' resourcePod (render_val (encode_pod hostNetworkPod))))) = [0, 1]"
proof -
  let ?ar = "request ''uid-2'' resourcePod (render_val (encode_pod hostNetworkPod))"
  have res: "AdmissionRequest.Resource ?ar = resourcePod"
    by (simp add: request_simps)
  have dec: "serializer_Decode test_lib (Raw (Object ?ar)) = Inr hostNetworkPod"
    by (simp only: request_simps known_hostNetworkPod)
  have host: "IgnorePodsInHostNetwork hostNetworkPod"
    by (simp add: IgnorePodsInHostNetwork_def HostNetwork_def hostNetworkPod_def)
  have no: "\<not> IgnorePodsWithAnnotation ''cool'' ''nope'' hostNetworkPod"
    by (simp add: IgnorePodsWithAnnotation_def GetAnnotations_def index_def hostNetworkPod_def)
  have ex: "\<exists>ig\<in>set (ignore coolMutator). ig hostNetworkPod"
    using host by (simp add: coolMutator_simps)
  have n: "[0 ..< Suc (length (takeWhile (\<lambda>ig. \<not> ig hostNetworkPod) (ignore coolMutator)))] = [0, 1]"
    using host no by (simp add: coolMutator_simps upt_rec)
  show ?thesis
    using res dec host n Review_ignore_short_circuit [OF res dec ex]
    by simp
qed

lemma Review_response_cases:
  "fst (Review lb m ar) = admissionError (New ''cannot review non-pod resource'') StatusReasonInvalid \<or>
   (\<exists>err. fst (Review lb m ar) =
      admissionError (Wrap err ''cannot decode object as a pod'') StatusReasonInvalid) \<or>
   fst (Review lb m ar) =
      \<lparr>AdmissionResponse.UID = '''', Allowed = True, Result = None, Patch = [], PatchType = None\<rparr> \<or>
   (\<exists>err. fst (Review lb m ar) =
      admissionError (Wrap err ''cannot patch pod'') StatusReasonInternalError) \<or>
   (\<exists>pod patch. serializer_Decode lb (Raw (Object ar)) = Inr pod \<and> p m pod = Inr patch \<and>
      fst (Review lb m ar) =
        \<lparr>AdmissionResponse.UID = AdmissionRequest.UID ar, Allowed = True, Result = None,
         Patch = patch, PatchType = Some jsonPatch\<rparr>)"
proof (cases rule: Review_shape_cases [where ar = ar and lb = lb and m = m])
  case non_pod
  then show ?thesis by (simp add: Review_non_pod)
next
  case (undecodable err)
  then show ?thesis by (auto simp add: Review_undecodable)
next
  case (ignored pod)
  then show ?thesis by (simp add: Review_ignored)
next
  case (patch_error pod err)
  then show ?thesis by (auto simp add: Review_patch_error)
next
  case (mutated pod patch)
  then show ?thesis by (auto simp add: Review_mutated)
qed

lemma admissionError_shape:
  "rejected (admissionError err reason)"
  "\<not> allowed_unmodified (admissionError err reason)"
  "\<not> allowed_with_patch (admissionError err reason)"
  "AdmissionResponse.UID (admissionError err reason) = ''''"
  by (simp_all add: rejected_def allowed_unmodified_def allowed_with_patch_def admissionError_def)

text \<open>
  Claim C7. For every admission request, decodable or not, the response of \<^verbatim>\<open>Review\<close>
  has exactly one of the three shapes: allowed and unmodified, allowed with a patch and the
  JSON patch type, or rejected with a failure result and no patch. The payload of a patched
  response is what the patcher returned for the decoded pod.
\<close>

theorem Review_exactly_one_shape:
  "(allowed_unmodified (fst (Review lb m ar)) \<and>
      \<not> allowed_with_patch (fst (Review lb m ar)) \<and> \<not> rejected (fst (Review lb m ar)) \<or>
    allowed_with_patch (fst (Review lb m ar)) \<and>
      \<not> allowed_unmodified (fst (Review lb m ar)) \<and> \<not> rejected (fst (Review lb m ar)) \<or>
    rejected (fst (Review lb m ar)) \<and>
      \<not> allowed_unmodified (fst (Review lb m ar)) \<and> \<not> allowed_with_patch (fst (Review lb m ar))) \<and>
   (allowed_with_patch (fst (Review lb m ar)) \<longrightarrow>
      (\<exists>pod. serializer_Decode lb (Raw (Object ar)) = Inr pod \<and>
         p m pod = Inr (AdmissionResponse.Patch (fst (Review lb m ar)))))"
  using Review_response_cases [of lb m ar]
  by (elim disjE exE conjE)
    (simp_all add: admissionError_shape,
     simp_all add: rejected_def allowed_unmodified_def allowed_with_patch_def)

lemma coolPod_not_ignored: "\<not> (\<exists>ig\<in>set (ignore coolMutator). ig coolPod)"
  by (simp add: coolMutator_simps IgnorePodsWithAnnotation_def IgnorePodsWithoutAnnotation_def
      IgnorePodsInHostNetwork_def HostNetwork_def GetAnnotations_def index_def coolPod_def)

lemma hostNetworkPod_ignored: "\<exists>ig\<in>set (ignore coolMutator). ig hostNetworkPod"
  by (simp add: coolMutator_simps IgnorePodsInHostNetwork_def HostNetwork_def hostNetworkPod_def)

lemma Review_coolPod:
  "fst (Review test_lib coolMutator (request uid resourcePod (render_val (encode_pod coolPod)))) =
     \<lparr>AdmissionResponse.UID = uid, Allowed = True, Result = None,
      Patch = coolPatch, PatchType = Some jsonPatch\<rparr>"
proof -
  let ?ar = "request uid resourcePod (render_val (encode_pod coolPod))"
  have res: "AdmissionRequest.Resource ?ar = resourcePod"
    by (simp add: request_simps)
  have dec: "serializer_Decode test_lib (Raw (Object ?ar)) = Inr coolPod"
    by (simp only: request_simps known_coolPod)
  have pt: "p coolMutator coolPod = Inr coolPatch"
    by (simp add: coolMutator_simps predictablePatcher_def)
  show ?thesis
    by (simp add: Review_mutated [OF res dec coolPod_not_ignored pt] request_simps)
qed

lemma Review_hostNetworkPod:
  "fst (Review test_lib coolMutator
          (request uid resourcePod (render_val (encode_pod hostNetworkPod)))) =
     \<lparr>AdmissionResponse.UID = '''', Allowed = True, Result = None, Patch = [], PatchType = None\<rparr>"
proof -
  let ?ar = "request uid resourcePod (render_val (encode_pod hostNetworkPod))"
  have res: "AdmissionRequest.Resource ?ar = resourcePod"
    by (simp add: request_simps)
  have dec: "serializer_Decode test_lib (Raw (Object ?ar)) = Inr hostNetworkPod"
    by (simp only: request_simps known_hostNetworkPod)
  show ?thesis
    by (simp add: Review_ignored [OF res dec hostNetworkPod_ignored])
qed

lemma Review_configmaps:
  "fst (Review test_lib coolMutator (request uid configmaps raw)) =
     admissionError (New ''cannot review non-pod resource'') StatusReasonInvalid"
  by (simp add: Review_non_pod [OF configmaps_not_pods])

theorem Review_exactly_one_shape_witness:
  "allowed_with_patch
     (fst (Review test_lib coolMutator
        (request ''uid-3'' resourcePod (render_val (encode_pod coolPod))))) \<and>
   \<not> allowed_unmodified
     (fst (Review test_lib coolMutator
        (request ''uid-3'' resourcePod (render_val (encode_pod coolPod))))) \<and>
   \<not> rejected
     (fst (Review test_lib coolMutator
        (request ''uid-3'' resourcePod (render_val (encode_pod coolPod))))) \<and>
   allowed_unmodified
     (fst (Review test_lib coolMutator
        (request ''uid-3'' resourcePod (render_val (encode_pod hostNetworkPod))))) \<and>
   \<not> allowed_with_patch
     (fst (Review test_lib coolMutator
        (request ''uid-3'' resourcePod (render_val (encode_pod hostNetworkPod))))) \<and>
   rejected (fst (Review test_lib coolMutator (request ''uid-3'' configmaps []))) \<and>
   \<not> allowed_with_patch (fst (Review test_lib coolMutator (request ''uid-3'' configmaps [])))"
proof -
  have a: "allowed_with_patch
     (fst (Review test_lib coolMutator
        (request ''uid-3'' resourcePod (render_val (encode_pod coolPod)))))"
    by (simp add: Review_coolPod allowed_with_patch_def)
  have b: "allowed_unmodified
     (fst (Review test_lib coolMutator
        (request ''uid-3'' resourcePod (render_val (encode_pod hostNetworkPod)))))"
    by (simp add: Review_hostNetworkPod allowed_unmodified_def)
  have c: "rejected (fst (Review test_lib coolMutator (request ''uid-3'' configmaps [])))"
    by (simp add: Review_configmaps admissionError_shape)
  show ?thesis
    using a b c
      Review_exactly_one_shape [of test_lib coolMutator
        "request ''uid-3'' resourcePod (render_val (encode_pod coolPod))"]
      Review_exactly_one_shape [of test_lib coolMutator
        "request ''uid-3'' resourcePod (render_val (encode_pod hostNetworkPod))"]
      Review_exactly_one_shape [of test_lib coolMutator "request ''uid-3'' configmaps []"]
    by blast
qed

text \<open>
  Claim C10. The patched response carries the UID of the request; the unmodified response
  and every rejected response have the empty UID.
\<close>

theorem Review_UID_only_when_patched:
  "(allowed_with_patch (fst (Review lb m ar)) \<longrightarrow>
      AdmissionResponse.UID (fst (Review lb m ar)) = AdmissionRequest.UID ar) \<and>
   (allowed_unmodified (fst (Review lb m ar)) \<longrightarrow>
      AdmissionResponse.UID (fst (Review lb m ar)) = '''') \<and>
   (rejected (fst (Review lb m ar)) \<longrightarrow>
      AdmissionResponse.UID (fst (Review lb m ar)) = '''')"
  using Review_response_cases [of lb m ar]
  by (elim disjE exE conjE)
    (simp_all add: admissionError_shape,
     simp_all add: rejected_def allowed_unmodified_def allowed_with_patch_def)

theorem Review_UID_only_when_patched_witness:
  "allowed_with_patch
     (fst (Review test_lib coolMutator
        (request ''uid-4'' resourcePod (render_val (encode_pod coolPod))))) \<and>
   AdmissionResponse.UID
     (fst (Review test_lib coolMutator
        (request ''uid-4'' resourcePod (render_val (encode_pod coolPod))))) = ''uid-4'' \<and>
   allowed_unmodified
     (fst (Review test_lib coolMutator
        (request ''uid-4'' resourcePod (render_val (encode_pod hostNetworkPod))))) \<and>
   AdmissionResponse.UID
     (fst (Review test_lib coolMutator
        (request ''uid-4'' resourcePod (render_val (encode_pod hostNetworkPod))))) = '''' \<and>
   rejected (fst (Review test_lib coolMutator (request ''uid-4'' configmaps []))) \<and>
   AdmissionResponse.UID (fst (Review test_lib coolMutator (request ''uid-4'' configmaps []))) = ''''"
proof -
  have a: "allowed_with_patch
     (fst (Review test_lib coolMutator
        (request ''uid-4'' resourcePod (render_val (encode_pod coolPod)))))"
    by (simp add: Review_coolPod allowed_with_patch_def)
  have b: "allowed_unmodified
     (fst (Review test_lib coolMutator
        (request ''uid-4'' resourcePod (render_val (encode_pod hostNetworkPod)))))"
    by (simp add: Review_hostNetworkPod allowed_unmodified_def)
  have c: "rejected (fst (Review test_lib coolMutator (request ''uid-4'' configmaps [])))"
    by (simp add: Review_configmaps admissionError_shape)
  show ?thesis
    using a b c
      Review_UID_only_when_patched [of test_lib coolMutator
        "request ''uid-4'' resourcePod (render_val (encode_pod coolPod))"]
      Review_UID_only_when_patched [of test_lib coolMutator
        "request ''uid-4'' resourcePod (render_val (encode_pod hostNetworkPod))"]
      Review_UID_only_when_patched [of test_lib coolMutator "request ''uid-4'' configmaps []"]
    by (simp add: request_simps)
qed

subsection \<open>The webhook handler\<close>

text \<open>
  Claim C8. A request with an empty body is answered with status 400 and the message
  \<^verbatim>\<open>cannot parse empty request body\<close> (\<^verbatim>\<open>http.Error\<close> ends it with a newline); a body
  that does not decode and a review without a request are answered with status 400 as
  well. In none of the three cases is the reviewer called.
\<close>

theorem AdmissionReviewWebhook_bad_request:
  "AdmissionReviewWebhook r decode encode (Inr []) =
     (\<lparr>StatusCode = 400, Body = ''cannot parse empty request body'' @ [CHR 0x0A]\<rparr>, []) \<and>
   (b \<noteq> [] \<and> decode b = Inl err \<longrightarrow>
      AdmissionReviewWebhook r decode encode (Inr b) =
        (\<lparr>StatusCode = 400,
          Body = ''cannot decode request body as admission review: '' @ Error err @ [CHR 0x0A]\<rparr>,
         [])) \<and>
   (b \<noteq> [] \<and> decode b = Inr rv \<and> Request rv = None \<longrightarrow>
      AdmissionReviewWebhook r decode encode (Inr b) =
        (\<lparr>StatusCode = 400, Body = ''admission review must contain a request'' @ [CHR 0x0A]\<rparr>,
         []))"
  by (simp add: AdmissionReviewWebhook_def http_Error_def StatusBadRequest_def)

theorem AdmissionReviewWebhook_bad_request_witness:
  "AdmissionReviewWebhook (predictableReviewer allowedResponse) decode_review encode_review
       (Inr []) =
     (\<lparr>StatusCode = 400, Body = ''cannot parse empty request body'' @ [CHR 0x0A]\<rparr>, []) \<and>
   decode_review ''imastring!'' = Inl (New ''couldn't get version/kind; json parse error'') \<and>
   AdmissionReviewWebhook (predictableReviewer allowedResponse) decode_review encode_review
       (Inr ''imastring!'') =
     (\<lparr>StatusCode = 400,
       Body = ''cannot decode request body as admission review: couldn't get version/kind; json parse error'' @ [CHR 0x0A]\<rparr>,
      []) \<and>
   decode_review ''{}'' = Inr \<lparr>Request = None, Response = None\<rparr> \<and>
   AdmissionReviewWebhook (predictableReviewer allowedResponse) decode_review encode_review
       (Inr ''{}'') =
     (\<lparr>StatusCode = 400, Body = ''admission review must contain a request'' @ [CHR 0x0A]\<rparr>, [])"
proof -
  have d1: "decode_review ''imastring!'' = Inl (New ''couldn't get version/kind; json parse error'')"
    by (simp add: decode_review_def)
  have d2: "decode_review ''{}'' = Inr \<lparr>Request = None, Response = None\<rparr>"
    by (simp add: decode_review_def)
  show ?thesis
    using d1 d2
      AdmissionReviewWebhook_bad_request [of "predictableReviewer allowedResponse" decode_review
        encode_review "''imastring!''" "New ''couldn't get version/kind; json parse error''"
        "\<lparr>Request = None, Response = None\<rparr>"]
      AdmissionReviewWebhook_bad_request [of "predictableReviewer allowedResponse" decode_review
        encode_review "''{}''" "New ''x''" "\<lparr>Request = None, Response = None\<rparr>"]
    by simp
qed

subsection \<open>The fixtures\<close>

lemma mutation_simps:
  "Overwrite (Strategy (PodMutation.Spec (mutation ow ap meta spec))) = ow"
  "Append (Strategy (PodMutation.Spec (mutation ow ap meta spec))) = ap"
  "PodMutationTemplate.ObjectMeta (Template (PodMutation.Spec (mutation ow ap meta spec))) = meta"
  "PodMutationTemplate.Spec (Template (PodMutation.Spec (mutation ow ap meta spec))) = spec"
  by (simp_all add: mutation_def)

lemma test_lib_simps:
  "mergo_Merge test_lib = merge"
  "serializer_Encode test_lib = (\<lambda>pd. Inr (encode_pod pd))"
  "jsonpatch_CreatePatch test_lib = (\<lambda>a b. Inr (diff_val [] a b))"
  "json_Marshal test_lib = marshal"
  by (simp_all add: test_lib_def spec_lib_def)

lemma spec_lib_simps:
  "mergo_Merge (spec_lib dec) = merge"
  "serializer_Encode (spec_lib dec) = (\<lambda>pd. Inr (encode_pod pd))"
  "serializer_Decode (spec_lib dec) = dec"
  "jsonpatch_CreatePatch (spec_lib dec) = (\<lambda>a b. Inr (diff_val [] a b))"
  "json_Marshal (spec_lib dec) = marshal"
  by (simp_all add: spec_lib_def)

lemma inject_overrideNameservers:
  "inject test_lib overrideNameservers coolPod =
     Inr \<lparr>Pod.ObjectMeta = Pod.ObjectMeta coolPod,
          Pod.Spec =
            [(''containers'',
                Seq [Obj [(''name'', Scalar (Str ''coolcontainer'')),
                          (''image'', Scalar (Str ''coolimage:coolest'')),
                          (''command'', Seq [Scalar (Str ''/cool'')]),
                          (''args'', Seq [Scalar (Str ''-very'')])]]),
             (''dnsPolicy'', Scalar (Str ''None'')),
             (''dnsConfig'', Obj [(''nameservers'', Seq [Scalar (Str ''127.0.0.1'')])])]\<rparr>"
  by (simp add: inject_def overrideNameservers_def mutation_simps test_lib_simps merge_options_def
      merge_def new_fields_def coolPod_def)

lemma inject_setCoolAnnotation:
  "inject test_lib setCoolAnnotation coolPod = Inr coolPod"
  by (simp add: inject_def setCoolAnnotation_def mutation_simps test_lib_simps merge_options_def
      merge_def new_fields_def coolPod_def)

lemma inject_addContainer:
  "inject test_lib addContainer coolPod =
     Inr \<lparr>Pod.ObjectMeta = Pod.ObjectMeta coolPod,
          Pod.Spec =
            [(''containers'',
                Seq [Obj [(''name'', Scalar (Str ''coolcontainer'')),
                          (''image'', Scalar (Str ''coolimage:coolest'')),
                          (''command'', Seq [Scalar (Str ''/cool'')]),
                          (''args'', Seq [Scalar (Str ''-very'')])],
                     Obj [(''name'', Scalar (Str ''coolercontainer'')),
                          (''image'', Scalar (Str ''extracool:somehowmorecool''))]]),
             (''dnsPolicy'', Scalar (Str ''ClusterFirst''))]\<rparr>"
  by (simp add: inject_def addContainer_def mutation_simps test_lib_simps merge_options_def
      merge_def new_fields_def coolPod_def)


subsection \<open>Sorting the patch\<close>







lemma inject_CreatePatch_update [simp]:
  "inject (lb\<lparr>jsonpatch_CreatePatch := cp\<rparr>) m original = inject lb m original"
  by (simp add: inject_def Let_def cong: sum.case_cong)




subsection \<open>The merge\<close>

lemma merge_fields_empty: "merge_fields ow ap fs [] = Inr fs"
  by (induction fs) auto

lemma new_fields_empty: "new_fields fs [] = []"
  by (simp add: new_fields_def)

lemma merge_empty: "merge dst [] mo = Inr dst"
  by (simp add: merge_def merge_fields_empty new_fields_empty)

lemma merge_fields_both:
  "merge_fields ow ap fs gs = Inr r \<Longrightarrow> map_of fs k = Some ov \<Longrightarrow> map_of gs k = Some tv \<Longrightarrow>
   \<exists>v. merge_val ow ap ov tv = Inr v \<and> map_of r k = Some v"
proof (induction fs arbitrary: r)
  case Nil
  then show ?case by simp
next
  case (Cons f fs)
  obtain k0 ov0 where f: "f = (k0, ov0)" by (cases f)
  show ?case
  proof (cases "k0 = k")
    case True
    with Cons.prems f show ?thesis
      by (auto split: option.splits sum.splits)
  next
    case False
    with Cons.prems f obtain r' x where
      r: "r = (k0, x) # r'" and rest: "merge_fields ow ap fs gs = Inr r'"
      by (auto split: option.splits sum.splits)
    from False Cons.prems(2) f have "map_of fs k = Some ov" by simp
    from Cons.IH [OF rest this Cons.prems(3)] False r show ?thesis by simp
  qed
qed

lemma merge_fields_original_only:
  "merge_fields ow ap fs gs = Inr r \<Longrightarrow> map_of gs k = None \<Longrightarrow> map_of r k = map_of fs k"
proof (induction fs arbitrary: r)
  case Nil
  then show ?case by simp
next
  case (Cons f fs)
  obtain k0 ov0 where f: "f = (k0, ov0)" by (cases f)
  show ?case
  proof (cases "k0 = k")
    case True
    with Cons.prems f show ?thesis
      by (auto split: option.splits sum.splits)
  next
    case False
    with Cons.prems f obtain r' x where
      r: "r = (k0, x) # r'" and rest: "merge_fields ow ap fs gs = Inr r'"
      by (auto split: option.splits sum.splits)
    from Cons.IH [OF rest Cons.prems(2)] r f False show ?thesis by simp
  qed
qed

lemma merge_fields_keys:
  "merge_fields ow ap fs gs = Inr r \<Longrightarrow> map fst r = map fst fs"
proof (induction fs arbitrary: r)
  case Nil
  then show ?case by simp
next
  case (Cons f fs)
  obtain k0 ov0 where f: "f = (k0, ov0)" by (cases f)
  from Cons.prems f obtain r' x where
    r: "r = (k0, x) # r'" and rest: "merge_fields ow ap fs gs = Inr r'"
    by (auto split: option.splits sum.splits)
  from Cons.IH [OF rest] r f show ?case by simp
qed

lemma map_of_new_fields:
  "map_of (new_fields fs gs) k = (if map_of fs k = None then map_of gs k else None)"
  unfolding new_fields_def by (induction gs) auto

lemma map_of_merged:
  assumes "merge_fields ow ap fs gs = Inr r"
  shows "map_of (r @ new_fields fs gs) k =
    (case map_of fs k of
       None \<Rightarrow> map_of gs k
     | Some ov \<Rightarrow> (case map_of gs k of None \<Rightarrow> Some ov | Some tv \<Rightarrow> map_of r k))"
proof -
  have keys: "map_of r k = None \<longleftrightarrow> map_of fs k = None"
    using merge_fields_keys [OF assms] by (metis map_of_eq_None_iff set_map)
  show ?thesis
  proof (cases "map_of fs k")
    case None
    with keys show ?thesis
      by (simp add: map_of_append map_add_def map_of_new_fields split: option.splits)
  next
    case (Some ov)
    with keys obtain v where v: "map_of r k = Some v" by auto
    show ?thesis
    proof (cases "map_of gs k")
      case None
      with Some merge_fields_original_only [OF assms None] show ?thesis
        by (simp add: map_of_append map_add_def map_of_new_fields)
    next
      case tv: (Some tv)
      with Some v show ?thesis
        by (simp add: map_of_append map_add_def map_of_new_fields)
    qed
  qed
qed

lemma merged_scalar_at:
  "merge_fields ow ap fs gs = Inr r \<Longrightarrow>
   field_at path fs = Some (Scalar a) \<Longrightarrow> field_at path gs = Some (Scalar b) \<Longrightarrow>
   field_at path (r @ new_fields fs gs) = Some (Scalar (if ow then b else a))"
proof (induction path fs arbitrary: gs r rule: field_at.induct)
  case (1 fs)
  then show ?case by simp
next
  case (2 k fs)
  from 2 have fs: "map_of fs k = Some (Scalar a)" and gs: "map_of gs k = Some (Scalar b)"
    by simp_all
  from merge_fields_both [OF 2(1) fs gs] have "map_of r k = Some (Scalar (if ow then b else a))"
    by auto
  with fs gs show ?case
    by (simp add: map_of_merged [OF 2(1)])
next
  case (3 k k' ks fs)
  from 3(3) obtain fs' where fs: "map_of fs k = Some (Obj fs')"
    and a: "field_at (k' # ks) fs' = Some (Scalar a)"
    by (auto split: option.splits val.splits)
  from 3(4) obtain gs' where gs: "map_of gs k = Some (Obj gs')"
    and b: "field_at (k' # ks) gs' = Some (Scalar b)"
    by (auto split: option.splits val.splits)
  from merge_fields_both [OF 3(2) fs gs] obtain r' where
    r': "merge_fields ow ap fs' gs' = Inr r'" and
    rk: "map_of r k = Some (Obj (r' @ new_fields fs' gs'))"
    by (auto split: sum.splits)
  have "field_at (k' # ks) (r' @ new_fields fs' gs') = Some (Scalar (if ow then b else a))"
    using 3(1) [OF fs refl r' a b] .
  with fs gs rk show ?case
    by (simp add: map_of_merged [OF 3(2)])
qed

lemma merged_seq_at:
  "merge_fields ow ap fs gs = Inr r \<Longrightarrow>
   field_at path fs = Some (Seq xs) \<Longrightarrow> field_at path gs = Some (Seq ys) \<Longrightarrow>
   field_at path (r @ new_fields fs gs) =
     Some (Seq (if ap then xs @ ys else if ow then ys else xs))"
proof (induction path fs arbitrary: gs r rule: field_at.induct)
  case (1 fs)
  then show ?case by simp
next
  case (2 k fs)
  from 2 have fs: "map_of fs k = Some (Seq xs)" and gs: "map_of gs k = Some (Seq ys)"
    by simp_all
  from merge_fields_both [OF 2(1) fs gs]
  have "map_of r k = Some (Seq (if ap then xs @ ys else if ow then ys else xs))"
    by auto
  with fs gs show ?case
    by (simp add: map_of_merged [OF 2(1)])
next
  case (3 k k' ks fs)
  from 3(3) obtain fs' where fs: "map_of fs k = Some (Obj fs')"
    and a: "field_at (k' # ks) fs' = Some (Seq xs)"
    by (auto split: option.splits val.splits)
  from 3(4) obtain gs' where gs: "map_of gs k = Some (Obj gs')"
    and b: "field_at (k' # ks) gs' = Some (Seq ys)"
    by (auto split: option.splits val.splits)
  from merge_fields_both [OF 3(2) fs gs] obtain r' where
    r': "merge_fields ow ap fs' gs' = Inr r'" and
    rk: "map_of r k = Some (Obj (r' @ new_fields fs' gs'))"
    by (auto split: sum.splits)
  have "field_at (k' # ks) (r' @ new_fields fs' gs') =
      Some (Seq (if ap then xs @ ys else if ow then ys else xs))"
    using 3(1) [OF fs refl r' a b] .
  with fs gs rk show ?case
    by (simp add: map_of_merged [OF 3(2)])
qed

lemma merge_options_mem:
  "WithOverride \<in> set (merge_options m) \<longleftrightarrow> Overwrite (Strategy (PodMutation.Spec m))"
  "WithAppendSlice \<in> set (merge_options m) \<longleftrightarrow> Append (Strategy (PodMutation.Spec m))"
  by (simp_all add: merge_options_def)

lemma inject_spec_lib:
  assumes "inject (spec_lib dec) m original = Inr injected"
  obtains rm rs where
    "merge_fields (Overwrite (Strategy (PodMutation.Spec m))) (Append (Strategy (PodMutation.Spec m)))
       (Pod.ObjectMeta original) (PodMutationTemplate.ObjectMeta (Template (PodMutation.Spec m)))
       = Inr rm"
    "Pod.ObjectMeta injected =
       rm @ new_fields (Pod.ObjectMeta original)
              (PodMutationTemplate.ObjectMeta (Template (PodMutation.Spec m)))"
    "merge_fields (Overwrite (Strategy (PodMutation.Spec m))) (Append (Strategy (PodMutation.Spec m)))
       (Pod.Spec original) (PodMutationTemplate.Spec (Template (PodMutation.Spec m)))
       = Inr rs"
    "Pod.Spec injected =
       rs @ new_fields (Pod.Spec original)
              (PodMutationTemplate.Spec (Template (PodMutation.Spec m)))"
  using assms
  by (auto simp: inject_def spec_lib_simps merge_def merge_options_mem Let_def split: sum.splits)

text \<open>
  Claim C4. For a scalar field (at any depth, so also an entry of a map such as an
  annotation) that is set on both the original pod and the template, the merge performed by
  \<^verbatim>\<open>Patch\<close> yields the template's value when \<^verbatim>\<open>overwrite\<close> is true and leaves the
  original's value when it is false: the template wins iff \<^verbatim>\<open>overwrite\<close>, otherwise the
  original is kept. Where the two values differ, this reads: the merged field equals the
  template's iff \<^verbatim>\<open>overwrite\<close> is true and equals the original's iff it is false.
\<close>

theorem merge_scalar_set_in_both:
  assumes "inject (spec_lib dec) m original = Inr injected"
  shows
    "(field_at path (Pod.ObjectMeta original) = Some (Scalar a) \<and>
      field_at path (PodMutationTemplate.ObjectMeta (Template (PodMutation.Spec m))) = Some (Scalar b) \<longrightarrow>
        field_at path (Pod.ObjectMeta injected) =
          Some (Scalar (if Overwrite (Strategy (PodMutation.Spec m)) then b else a)) \<and>
        (a \<noteq> b \<longrightarrow>
          (field_at path (Pod.ObjectMeta injected) =
             field_at path (PodMutationTemplate.ObjectMeta (Template (PodMutation.Spec m)))
           \<longleftrightarrow> Overwrite (Strategy (PodMutation.Spec m))) \<and>
          (field_at path (Pod.ObjectMeta injected) = field_at path (Pod.ObjectMeta original)
           \<longleftrightarrow> \<not> Overwrite (Strategy (PodMutation.Spec m))))) \<and>
     (field_at path (Pod.Spec original) = Some (Scalar a) \<and>
      field_at path (PodMutationTemplate.Spec (Template (PodMutation.Spec m))) = Some (Scalar b) \<longrightarrow>
        field_at path (Pod.Spec injected) =
          Some (Scalar (if Overwrite (Strategy (PodMutation.Spec m)) then b else a)) \<and>
        (a \<noteq> b \<longrightarrow>
          (field_at path (Pod.Spec injected) =
             field_at path (PodMutationTemplate.Spec (Template (PodMutation.Spec m)))
           \<longleftrightarrow> Overwrite (Strategy (PodMutation.Spec m))) \<and>
          (field_at path (Pod.Spec injected) = field_at path (Pod.Spec original)
           \<longleftrightarrow> \<not> Overwrite (Strategy (PodMutation.Spec m)))))"
proof -
  from assms obtain rm rs where
    rm: "merge_fields (Overwrite (Strategy (PodMutation.Spec m))) (Append (Strategy (PodMutation.Spec m)))
       (Pod.ObjectMeta original) (PodMutationTemplate.ObjectMeta (Template (PodMutation.Spec m)))
       = Inr rm" and
    im: "Pod.ObjectMeta injected =
       rm @ new_fields (Pod.ObjectMeta original)
              (PodMutationTemplate.ObjectMeta (Template (PodMutation.Spec m)))" and
    rs: "merge_fields (Overwrite (Strategy (PodMutation.Spec m))) (Append (Strategy (PodMutation.Spec m)))
       (Pod.Spec original) (PodMutationTemplate.Spec (Template (PodMutation.Spec m)))
       = Inr rs" and
    isp: "Pod.Spec injected =
       rs @ new_fields (Pod.Spec original)
              (PodMutationTemplate.Spec (Template (PodMutation.Spec m)))"
    by (rule inject_spec_lib)
  show ?thesis
    using merged_scalar_at [OF rm, of path a b] merged_scalar_at [OF rs, of path a b]
    by (auto simp: im isp)
qed

theorem merge_scalar_set_in_both_witness:
  "inject test_lib overrideNameservers coolPod =
     Inr \<lparr>Pod.ObjectMeta = Pod.ObjectMeta coolPod,
          Pod.Spec =
            [(''containers'',
                Seq [Obj [(''name'', Scalar (Str ''coolcontainer'')),
                          (''image'', Scalar (Str ''coolimage:coolest'')),
                          (''command'', Seq [Scalar (Str ''/cool'')]),
                          (''args'', Seq [Scalar (Str ''-very'')])]]),
             (''dnsPolicy'', Scalar (Str ''None'')),
             (''dnsConfig'', Obj [(''nameservers'', Seq [Scalar (Str ''127.0.0.1'')])])]\<rparr> \<and>
   field_at [''dnsPolicy''] (Pod.Spec coolPod) = Some (Scalar (Str ''ClusterFirst'')) \<and>
   field_at [''dnsPolicy'']
     (PodMutationTemplate.Spec (Template (PodMutation.Spec overrideNameservers))) =
     Some (Scalar (Str ''None'')) \<and>
   Overwrite (Strategy (PodMutation.Spec overrideNameservers)) \<and>
   inject test_lib setCoolAnnotation coolPod = Inr coolPod \<and>
   field_at [''annotations'', ''cool''] (Pod.ObjectMeta coolPod) = Some (Scalar (Str ''true'')) \<and>
   field_at [''annotations'', ''cool'']
     (PodMutationTemplate.ObjectMeta (Template (PodMutation.Spec setCoolAnnotation))) =
     Some (Scalar (Str ''nope'')) \<and>
   \<not> Overwrite (Strategy (PodMutation.Spec setCoolAnnotation))"
proof -
  have a: "field_at [''dnsPolicy''] (Pod.Spec coolPod) = Some (Scalar (Str ''ClusterFirst''))"
    by (simp add: coolPod_def)
  have b: "field_at [''dnsPolicy'']
      (PodMutationTemplate.Spec (Template (PodMutation.Spec overrideNameservers))) =
      Some (Scalar (Str ''None''))"
    by (simp add: overrideNameservers_def mutation_simps)
  have c: "field_at [''annotations'', ''cool''] (Pod.ObjectMeta coolPod) = Some (Scalar (Str ''true''))"
    by (simp add: coolPod_def)
  have d: "field_at [''annotations'', ''cool'']
      (PodMutationTemplate.ObjectMeta (Template (PodMutation.Spec setCoolAnnotation))) =
      Some (Scalar (Str ''nope''))"
    by (simp add: setCoolAnnotation_def mutation_simps)
  have e: "Overwrite (Strategy (PodMutation.Spec overrideNameservers))"
    "\<not> Overwrite (Strategy (PodMutation.Spec setCoolAnnotation))"
    by (simp_all add: overrideNameservers_def setCoolAnnotation_def mutation_simps)
  show ?thesis
    using a b c d e inject_overrideNameservers inject_setCoolAnnotation
      merge_scalar_set_in_both [OF inject_overrideNameservers [unfolded test_lib_def],
        of "[''dnsPolicy'']" "Str ''ClusterFirst''" "Str ''None''"]
      merge_scalar_set_in_both [OF inject_setCoolAnnotation [unfolded test_lib_def],
        of "[''annotations'', ''cool'']" "Str ''true''" "Str ''nope''"]
    by simp
qed

text \<open>
  Claim C5. For a sequence field set on both the original pod and the template, merging
  with \<^verbatim>\<open>append\<close> yields a sequence whose length is the sum of the two lengths, whose
  first elements are the original's in their order and whose remaining elements are the
  template's; nothing is removed.
\<close>

theorem merge_append_sequences:
  assumes "inject (spec_lib dec) m original = Inr injected"
    and "Append (Strategy (PodMutation.Spec m))"
  shows
    "(field_at path (Pod.ObjectMeta original) = Some (Seq xs) \<and>
      field_at path (PodMutationTemplate.ObjectMeta (Template (PodMutation.Spec m))) = Some (Seq ys) \<longrightarrow>
        (\<exists>zs. field_at path (Pod.ObjectMeta injected) = Some (Seq zs) \<and>
           length zs = length xs + length ys \<and>
           take (length xs) zs = xs \<and> drop (length xs) zs = ys)) \<and>
     (field_at path (Pod.Spec original) = Some (Seq xs) \<and>
      field_at path (PodMutationTemplate.Spec (Template (PodMutation.Spec m))) = Some (Seq ys) \<longrightarrow>
        (\<exists>zs. field_at path (Pod.Spec injected) = Some (Seq zs) \<and>
           length zs = length xs + length ys \<and>
           take (length xs) zs = xs \<and> drop (length xs) zs = ys))"
proof -
  from assms(1) obtain rm rs where
    rm: "merge_fields (Overwrite (Strategy (PodMutation.Spec m))) (Append (Strategy (PodMutation.Spec m)))
       (Pod.ObjectMeta original) (PodMutationTemplate.ObjectMeta (Template (PodMutation.Spec m)))
       = Inr rm" and
    im: "Pod.ObjectMeta injected =
       rm @ new_fields (Pod.ObjectMeta original)
              (PodMutationTemplate.ObjectMeta (Template (PodMutation.Spec m)))" and
    rs: "merge_fields (Overwrite (Strategy (PodMutation.Spec m))) (Append (Strategy (PodMutation.Spec m)))
       (Pod.Spec original) (PodMutationTemplate.Spec (Template (PodMutation.Spec m)))
       = Inr rs" and
    isp: "Pod.Spec injected =
       rs @ new_fields (Pod.Spec original)
              (PodMutationTemplate.Spec (Template (PodMutation.Spec m)))"
    by (rule inject_spec_lib)
  show ?thesis
    using merged_seq_at [OF rm, of path xs ys] merged_seq_at [OF rs, of path xs ys] assms(2)
    by (auto simp: im isp)
qed

theorem merge_append_sequences_witness:
  "Append (Strategy (PodMutation.Spec addContainer)) \<and>
   field_at [''containers''] (Pod.Spec coolPod) =
     Some (Seq [Obj [(''name'', Scalar (Str ''coolcontainer'')),
                     (''image'', Scalar (Str ''coolimage:coolest'')),
                     (''command'', Seq [Scalar (Str ''/cool'')]),
                     (''args'', Seq [Scalar (Str ''-very'')])]]) \<and>
   field_at [''containers'']
     (PodMutationTemplate.Spec (Template (PodMutation.Spec addContainer))) =
     Some (Seq [Obj [(''name'', Scalar (Str ''coolercontainer'')),
                     (''image'', Scalar (Str ''extracool:somehowmorecool''))]]) \<and>
   inject test_lib addContainer coolPod =
     Inr \<lparr>Pod.ObjectMeta = Pod.ObjectMeta coolPod,
          Pod.Spec =
            [(''containers'',
                Seq [Obj [(''name'', Scalar (Str ''coolcontainer'')),
                          (''image'', Scalar (Str ''coolimage:coolest'')),
                          (''command'', Seq [Scalar (Str ''/cool'')]),
                          (''args'', Seq [Scalar (Str ''-very'')])],
                     Obj [(''name'', Scalar (Str ''coolercontainer'')),
                          (''image'', Scalar (Str ''extracool:somehowmorecool''))]]),
             (''dnsPolicy'', Scalar (Str ''ClusterFirst''))]\<rparr>"
proof -
  have ap: "Append (Strategy (PodMutation.Spec addContainer))"
    by (simp add: addContainer_def mutation_simps)
  have a: "field_at [''containers''] (Pod.Spec coolPod) =
     Some (Seq [Obj [(''name'', Scalar (Str ''coolcontainer'')),
                     (''image'', Scalar (Str ''coolimage:coolest'')),
                     (''command'', Seq [Scalar (Str ''/cool'')]),
                     (''args'', Seq [Scalar (Str ''-very'')])]])"
    by (simp add: coolPod_def)
  have b: "field_at [''containers'']
     (PodMutationTemplate.Spec (Template (PodMutation.Spec addContainer))) =
     Some (Seq [Obj [(''name'', Scalar (Str ''coolercontainer'')),
                     (''image'', Scalar (Str ''extracool:somehowmorecool''))]])"
    by (simp add: addContainer_def mutation_simps)
  show ?thesis
    using ap a b inject_addContainer
      merge_append_sequences [OF inject_addContainer [unfolded test_lib_def] ap,
        of "[''containers'']"
          "[Obj [(''name'', Scalar (Str ''coolcontainer'')),
                     (''image'', Scalar (Str ''coolimage:coolest'')),
                     (''command'', Seq [Scalar (Str ''/cool'')]),
                     (''args'', Seq [Scalar (Str ''-very'')])]]"
          "[Obj [(''name'', Scalar (Str ''coolercontainer'')),
                     (''image'', Scalar (Str ''extracool:somehowmorecool''))]]"]
    by simp
qed

subsection \<open>The patch of an unchanged pod\<close>

lemma diff_seq_same:
  assumes "\<And>x path. x \<in> set xs \<Longrightarrow> diff_val path x x = []"
  shows "diff_seq path i xs xs = []"
  using assms by (induction xs arbitrary: i) simp_all

lemma diff_fields_same:
  assumes "\<And>k v path. (k, v) \<in> set gs \<Longrightarrow> diff_val path v v = []"
    and "set seen = fst ` set pre"
  shows "diff_fields path (pre @ gs) gs seen = []"
  using assms
proof (induction gs arbitrary: pre seen)
  case Nil
  then show ?case by simp
next
  case (Cons g gs)
  obtain k v where g: "g = (k, v)" by (cases g)
  have rest: "diff_fields path ((pre @ [(k, v)]) @ gs) gs (k # seen) = []"
  proof (rule Cons.IH)
    show "diff_val path' v' v' = []" if "(k', v') \<in> set gs" for k' v' path'
      using that Cons.prems(1) [of k' v' path'] by simp
    show "set (k # seen) = fst ` set (pre @ [(k, v)])"
      using Cons.prems(2) by simp
  qed
  have head: "(case map_of (pre @ (k, v) # gs) k of
                 None \<Rightarrow> [NewPatch ''add'' (makePath path k) (Some v)]
               | Some a \<Rightarrow> diff_val (makePath path k) a v) = []"
    if "k \<notin> set seen"
  proof -
    from that Cons.prems(2) have "map_of pre k = None"
      by (simp add: map_of_eq_None_iff)
    then have "map_of (pre @ (k, v) # gs) k = Some v"
      by (simp add: map_of_append map_add_def)
    moreover have "diff_val (makePath path k) v v = []"
      using Cons.prems(1) [of k v] g by simp
    ultimately show ?thesis by simp
  qed
  show ?case
    using rest head g by simp
qed

lemma no_removed_fields:
  "filter (\<lambda>k. map_of fs k = None) (remdups (map fst fs)) = []"
  by (auto simp: filter_empty_conv map_of_eq_None_iff)

lemma diff_val_same: "diff_val path v v = []"
proof (induction v arbitrary: path)
  case (Scalar a)
  show ?case by simp
next
  case (Seq xs)
  then show ?case by (simp add: diff_seq_same)
next
  case (Obj fs)
  have "diff_val path' v v = []" if "(k, v) \<in> set fs" for k v path'
    using Obj [of "(k, v)" v path'] that by simp
  then have "diff_fields path ([] @ fs) fs [] = []"
    by (intro diff_fields_same) simp_all
  then show ?case
    by (simp add: no_removed_fields)
qed

lemma marshal_empty: "marshal [] = Inr ''[]''"
  by (simp add: marshal_def)

lemma sort_ByPath_empty: "sort_ByPath [] = []"
  by (simp add: sort_ByPath_def)

lemma inject_empty_template:
  assumes "PodMutationTemplate.ObjectMeta (Template (PodMutation.Spec m)) = []"
    and "PodMutationTemplate.Spec (Template (PodMutation.Spec m)) = []"
  shows "inject (spec_lib dec) m original = Inr original"
  using assms by (simp add: inject_def spec_lib_simps merge_empty)

lemma Patch_operations_unchanged:
  assumes "inject (spec_lib dec) m original = Inr original"
  shows "Patch_operations (spec_lib dec) m original = Inr []"
  using assms
  by (simp add: Patch_operations_def spec_lib_simps diff_val_same sort_ByPath_empty)

text \<open>
  Claim C6. For every pod, \<^verbatim>\<open>Patch\<close> with an empty template succeeds and returns the
  bytes \<^verbatim>\<open>[]\<close>: the merge returns the pod unchanged, the diff of the pod with itself is
  the empty sequence of operations, and its encoding is \<^verbatim>\<open>[]\<close>. This holds for every
  strategy, in particular for the default one of the empty \<^verbatim>\<open>PodMutation\<close>.
\<close>

theorem Patch_empty_mutation:
  "inject (spec_lib dec)
     \<lparr>TypeMeta = tm, PodMutation.ObjectMeta = om,
      PodMutation.Spec =
        \<lparr>Strategy = st,
         Template = \<lparr>PodMutationTemplate.ObjectMeta = [], PodMutationTemplate.Spec = []\<rparr>\<rparr>\<rparr>
     original = Inr original \<and>
   diff_val [] (encode_pod original) (encode_pod original) = [] \<and>
   Patch_operations (spec_lib dec)
     \<lparr>TypeMeta = tm, PodMutation.ObjectMeta = om,
      PodMutation.Spec =
        \<lparr>Strategy = st,
         Template = \<lparr>PodMutationTemplate.ObjectMeta = [], PodMutationTemplate.Spec = []\<rparr>\<rparr>\<rparr>
     original = Inr [] \<and>
   Patch (spec_lib dec)
     \<lparr>TypeMeta = tm, PodMutation.ObjectMeta = om,
      PodMutation.Spec =
        \<lparr>Strategy = st,
         Template = \<lparr>PodMutationTemplate.ObjectMeta = [], PodMutationTemplate.Spec = []\<rparr>\<rparr>\<rparr>
     original = Inr ''[]''"
  by (simp add: Patch_def Patch_operations_unchanged inject_empty_template diff_val_same
      spec_lib_simps marshal_empty)

theorem Patch_empty_mutation_witness:
  "Patch_operations test_lib (mutation False False [] []) coolPod = Inr [] \<and>
   Patch test_lib (mutation False False [] []) coolPod = Inr ''[]''"
  using Patch_empty_mutation [of "known_pods [coolPod, hostNetworkPod]"
      "\<lparr>TypeMeta.Kind = '''', APIVersion = ''''\<rparr>" "[]" "\<lparr>Overwrite = False, Append = False\<rparr>"
      coolPod]
  by (simp add: mutation_def test_lib_def)

subsection \<open>The tests of Patch, replayed\<close>

text \<open>
  With the imported functions as the specification describes them, \<^verbatim>\<open>Patch\<close> returns
  what \<^verbatim>\<open>TestPatch\<close> expects for \<^verbatim>\<open>NoOp\<close> and \<^verbatim>\<open>AddAnnotation\<close>, and the
  operation of \<^verbatim>\<open>AddContainer\<close> (the test's value has the fields the Kubernetes encoder
  adds to a container). Its payload is never empty.
\<close>

lemma TestPatch_NoOp:
  "Patch test_lib (mutation False False [] []) coolPod = Inr ''[]''"
proof -
  have "inject test_lib (mutation False False [] []) coolPod = Inr coolPod"
    unfolding test_lib_def by (rule inject_empty_template) (simp_all add: mutation_simps)
  then have "Patch_operations test_lib (mutation False False [] []) coolPod = Inr []"
    unfolding test_lib_def by (rule Patch_operations_unchanged)
  then show ?thesis
    by (simp add: Patch_def test_lib_simps marshal_empty)
qed

lemma TestPatch_AddAnnotation:
  "Patch test_lib addAnnotation coolPod =
     Inr (''[{'' @ quote ''op'' @ '':'' @ quote ''add'' @ '','' @
          quote ''path'' @ '':'' @ quote ''/metadata/annotations/supercool'' @ '','' @
          quote ''value'' @ '':'' @ quote ''alsotrue'' @ ''}]'')"
  by (simp add: Patch_def Patch_operations_def inject_def addAnnotation_def mutation_simps
      test_lib_simps merge_options_def merge_def new_fields_def coolPod_def encode_pod_def
      makePath_def NewPatch_def sort_ByPath_def marshal_def render_op_def)

lemma TestPatch_AddContainer:
  "Patch_operations test_lib addContainer coolPod =
     Inr [\<lparr>Operation = ''add'', Path = ''/spec/containers/1'',
           Value = Some (Obj [(''name'', Scalar (Str ''coolercontainer'')),
                              (''image'', Scalar (Str ''extracool:somehowmorecool''))])\<rparr>]"
  unfolding Patch_operations_def inject_addContainer
  by (simp add: test_lib_simps coolPod_def encode_pod_def makePath_def NewPatch_def sort_ByPath_def)

lemma Patch_payload_nonempty:
  "Patch (spec_lib dec) m original = Inr b \<Longrightarrow> b \<noteq> []"
  by (auto simp: Patch_def spec_lib_simps marshal_def split: sum.splits)

end
